theory Spec2Isabelle
  imports Main
begin

section \<open>Errors\<close>

text \<open>
  The exceptions raised in \<^verbatim>\<open>src/pact/v3/pact.py\<close>, or passed through it from the
  engine binding \<^verbatim>\<open>pact.v3.ffi\<close>, as values. A method that raises returns
  \<open>Inl\<close> of one of them next to the object as the raise left it.
\<close>

datatype error =
    ValueError string
  | KeyError string
  | RuntimeError string

section \<open>PactServer\<close>

text \<open>
  \<^verbatim>\<open>pact.v3.ffi.PactServerHandle\<close> is declared outside this file; the only thing
  \<^verbatim>\<open>PactServer\<close> reads of it is its \<^verbatim>\<open>port\<close>. It is an ordinary object, so
  \<^verbatim>\<open>if self._handle\<close> is true exactly when the field is not \<^verbatim>\<open>None\<close>.
\<close>

record PactServerHandle =
  handle_port :: int

text \<open>The fields assigned by \<^verbatim>\<open>PactServer.__init__\<close> (source names, without the underscore).\<close>

record PactServer =
  srv_host :: string
  srv_port :: int
  srv_transport :: string
  srv_transport_config :: "string option"
  srv_pact_handle :: nat
  srv_handle :: "PactServerHandle option"

definition PactServer_init ::
  "nat \<Rightarrow> string \<Rightarrow> int \<Rightarrow> string \<Rightarrow> string option \<Rightarrow> PactServer" where
  "PactServer_init pact_handle host port transport transport_config =
     \<lparr> srv_host = host, srv_port = port, srv_transport = transport,
       srv_transport_config = transport_config, srv_pact_handle = pact_handle,
       srv_handle = None \<rparr>"

text \<open>\<^verbatim>\<open>return self._handle.port if self._handle else 0\<close>\<close>

definition PactServer_port :: "PactServer \<Rightarrow> int" where
  "PactServer_port s = (case srv_handle s of Some h \<Rightarrow> handle_port h | None \<Rightarrow> 0)"

text \<open>
  \<^verbatim>\<open>pact.v3.ffi.create_mock_server_for_transport\<close> belongs to the engine: it is a
  parameter, returning the new handle or raising.
\<close>

type_synonym mock_server_ffi =
  "nat \<Rightarrow> string \<Rightarrow> int \<Rightarrow> string \<Rightarrow> string option \<Rightarrow> error + PactServerHandle"

definition PactServer_enter :: "mock_server_ffi \<Rightarrow> PactServer \<Rightarrow> (error + unit) \<times> PactServer" where
  "PactServer_enter create_mock_server_for_transport s =
     (case create_mock_server_for_transport (srv_pact_handle s) (srv_host s) (srv_port s)
             (srv_transport s) (srv_transport_config s) of
        Inl e \<Rightarrow> (Inl e, s)
      | Inr h \<Rightarrow> (Inr (), s\<lparr>srv_handle := Some h\<rparr>))"

text \<open>
  \<^verbatim>\<open>__exit__(self, _exc_type, _exc_value, _traceback)\<close>: the three arguments are one
  \<open>error option\<close> (\<open>None\<close> on a normal exit). The method returns \<^verbatim>\<open>None\<close>, so an
  exception of the block keeps propagating.
\<close>

definition PactServer_exit :: "error option \<Rightarrow> PactServer \<Rightarrow> PactServer" where
  "PactServer_exit exc s = (if srv_handle s \<noteq> None then s\<lparr>srv_handle := None\<rparr> else s)"

text \<open>
  \<^verbatim>\<open>with server: body\<close>. When \<^verbatim>\<open>__enter__\<close> raises, neither the body nor
  \<^verbatim>\<open>__exit__\<close> runs; otherwise \<^verbatim>\<open>__exit__\<close> runs after the body, with the
  exception the body raised, if any. The body is any function of the server.
\<close>

definition with_server ::
  "mock_server_ffi \<Rightarrow> (PactServer \<Rightarrow> (error + unit) \<times> PactServer) \<Rightarrow> PactServer
     \<Rightarrow> (error + unit) \<times> PactServer" where
  "with_server ffi body s =
     (case PactServer_enter ffi s of
        (Inl e, s1) \<Rightarrow> (Inl e, s1)
      | (Inr u, s1) \<Rightarrow>
          (case body s1 of
             (Inl e, s2) \<Rightarrow> (Inl e, PactServer_exit (Some e) s2)
           | (Inr v, s2) \<Rightarrow> (Inr v, PactServer_exit None s2)))"

section \<open>The engine binding\<close>

text \<open>
  Every mutator of this file ends in a call of \<^verbatim>\<open>pact.v3.ffi\<close>, the binding of the
  external engine. The calls made so far are kept in a log, oldest first; a call is one
  constructor per function of the binding this file uses, with the arguments in the
  order the source passes them. Handles are numbers.
\<close>

datatype InteractionPart = REQUEST | RESPONSE

text \<open>
  \<^verbatim>\<open>PactSpecification\<close> is an enumeration declared in \<^verbatim>\<open>pact.v3.ffi\<close>; a value
  of it is identified by the name of its member.
\<close>

datatype PactSpecification = Member string

type_synonym bytes = "char list"

datatype ffi_call =
    Ffi_given nat string
  | Ffi_given_with_param nat string string string
  | Ffi_given_with_params nat string string
  | Ffi_with_body nat InteractionPart string "string option"
  | Ffi_with_binary_file nat InteractionPart string "bytes option"
  | Ffi_with_multipart_file_v2 nat InteractionPart string "string option" string "string option"
  | Ffi_interaction_test_name nat string
  | Ffi_interaction_contents nat InteractionPart string string
  | Ffi_with_request nat string string
  | Ffi_with_header_v2 nat InteractionPart string nat string
  | Ffi_set_header nat InteractionPart string string
  | Ffi_with_query_parameter_v2 nat string nat string
  | Ffi_response_status nat int
  | Ffi_new_pact string string
  | Ffi_new_interaction nat string
  | Ffi_new_message_interaction nat string
  | Ffi_new_sync_message_interaction nat string
  | Ffi_with_specification nat PactSpecification
  | Ffi_using_plugin nat string "string option"
  | Ffi_with_pact_metadata nat string string string
  | Ffi_pact_handle_get_message_iter nat
  | Ffi_pact_handle_get_sync_http_iter nat
  | Ffi_pact_handle_get_sync_message_iter nat
  | Ffi_pact_handle_write_file nat string bool

text \<open>
  The engine is a parameter: given the calls already made and the next call, it either
  raises or returns (a handle, for the calls that create one; the number is ignored
  otherwise).
\<close>

type_synonym engine = "ffi_call list \<Rightarrow> ffi_call \<Rightarrow> error + nat"

text \<open>A call whose result the caller drops: it is logged, and raises when the engine does.\<close>

definition call :: "engine \<Rightarrow> ffi_call \<Rightarrow> ffi_call list \<Rightarrow> (error + unit) \<times> ffi_call list" where
  "call eng c log = (case eng log c of Inl e \<Rightarrow> Inl e | Inr h \<Rightarrow> Inr (), log @ [c])"

section \<open>Strings\<close>

text \<open>
  \<^verbatim>\<open>str.lower\<close> and \<^verbatim>\<open>str.upper\<close> on the ASCII letters; every other character is
  left as it is (header names and version strings are ASCII).
\<close>

definition ascii_uppercase :: string where
  "ascii_uppercase = ''ABCDEFGHIJKLMNOPQRSTUVWXYZ''"

definition ascii_lowercase :: string where
  "ascii_lowercase = ''abcdefghijklmnopqrstuvwxyz''"

definition lower_char :: "char \<Rightarrow> char" where
  "lower_char c = (case map_of (zip ascii_uppercase ascii_lowercase) c of Some d \<Rightarrow> d | None \<Rightarrow> c)"

definition upper_char :: "char \<Rightarrow> char" where
  "upper_char c = (case map_of (zip ascii_lowercase ascii_uppercase) c of Some d \<Rightarrow> d | None \<Rightarrow> c)"

definition lower :: "string \<Rightarrow> string" where
  "lower s = map lower_char s"

definition upper :: "string \<Rightarrow> string" where
  "upper s = map upper_char s"

text \<open>\<^verbatim>\<open>s.replace(".", "_")\<close>\<close>

definition replace_dots :: "string \<Rightarrow> string" where
  "replace_dots s = map (\<lambda>c. if c = CHR ''.'' then CHR ''_'' else c) s"

text \<open>\<^verbatim>\<open>s.startswith("V")\<close>\<close>

fun startswith_V :: "string \<Rightarrow> bool" where
  "startswith_V [] = False"
| "startswith_V (c # cs) = (c = CHR ''V'')"

section \<open>Interaction (the abstract base class)\<close>

text \<open>
  The methods of \<^verbatim>\<open>Interaction\<close> read two abstract properties of the subclass,
  \<^verbatim>\<open>_handle\<close> and \<^verbatim>\<open>_interaction_part\<close>, and assign no field: they take both
  as arguments and change the log only.

  The \<^verbatim>\<open>part\<close> argument is annotated \<^verbatim>\<open>Literal["Request", "Response", None]\<close>;
  at run time any string can arrive, and the last branch raises for it.
\<close>

definition parse_interaction_part :: "InteractionPart \<Rightarrow> string option \<Rightarrow> error + InteractionPart" where
  "parse_interaction_part self_interaction_part part =
     (if part = Some ''Request'' then Inr REQUEST
      else if part = Some ''Response'' then Inr RESPONSE
      else (case part of
              None \<Rightarrow> Inr self_interaction_part
            | Some p \<Rightarrow> Inl (ValueError (''Invalid part: '' @ p))))"

text \<open>
  An argument that is a dictionary or a string (\<^verbatim>\<open>dict[str, Any] | str\<close>). The
  dictionaries are those \<^verbatim>\<open>json.dumps\<close> encodes, as the docstring of \<^verbatim>\<open>given\<close>
  requires; their type is left open and \<^verbatim>\<open>json.dumps\<close> is a parameter.
\<close>

datatype 'd dict_or_str = Dict 'd | Str string

definition given ::
  "engine \<Rightarrow> ('d \<Rightarrow> string) \<Rightarrow> nat \<Rightarrow> string \<Rightarrow> string option \<Rightarrow> string option
     \<Rightarrow> 'd dict_or_str option \<Rightarrow> ffi_call list \<Rightarrow> (error + unit) \<times> ffi_call list" where
  "given eng json_dumps handle state name val parameters log =
     (case (name, val, parameters) of
        (Some n, Some v, None) \<Rightarrow> call eng (Ffi_given_with_param handle state n v) log
      | (None, None, Some (Dict d)) \<Rightarrow>
          call eng (Ffi_given_with_params handle state (json_dumps d)) log
      | (None, None, Some (Str s)) \<Rightarrow> call eng (Ffi_given_with_params handle state s) log
      | (None, None, None) \<Rightarrow> call eng (Ffi_given handle state) log
      | _ \<Rightarrow> (Inl (ValueError ''Invalid combination of arguments.''), log))"

definition with_body ::
  "engine \<Rightarrow> nat \<Rightarrow> InteractionPart \<Rightarrow> string option \<Rightarrow> string \<Rightarrow> string option
     \<Rightarrow> ffi_call list \<Rightarrow> (error + unit) \<times> ffi_call list" where
  "with_body eng handle self_part body content_type part log =
     (case parse_interaction_part self_part part of
        Inl e \<Rightarrow> (Inl e, log)
      | Inr p \<Rightarrow> call eng (Ffi_with_body handle p content_type body) log)"

definition with_binary_file ::
  "engine \<Rightarrow> nat \<Rightarrow> InteractionPart \<Rightarrow> bytes option \<Rightarrow> string \<Rightarrow> string option
     \<Rightarrow> ffi_call list \<Rightarrow> (error + unit) \<times> ffi_call list" where
  "with_binary_file eng handle self_part body content_type part log =
     (case parse_interaction_part self_part part of
        Inl e \<Rightarrow> (Inl e, log)
      | Inr p \<Rightarrow> call eng (Ffi_with_binary_file handle p content_type body) log)"

definition with_multipart_file ::
  "engine \<Rightarrow> nat \<Rightarrow> InteractionPart \<Rightarrow> string \<Rightarrow> string option \<Rightarrow> string \<Rightarrow> string option
     \<Rightarrow> string option \<Rightarrow> ffi_call list \<Rightarrow> (error + unit) \<times> ffi_call list" where
  "with_multipart_file eng handle self_part part_name path content_type part boundary log =
     (case parse_interaction_part self_part part of
        Inl e \<Rightarrow> (Inl e, log)
      | Inr p \<Rightarrow>
          call eng (Ffi_with_multipart_file_v2 handle p part_name path content_type boundary) log)"

definition test_name ::
  "engine \<Rightarrow> nat \<Rightarrow> string \<Rightarrow> ffi_call list \<Rightarrow> (error + unit) \<times> ffi_call list" where
  "test_name eng handle name log = call eng (Ffi_interaction_test_name handle name) log"

definition with_plugin_contents ::
  "engine \<Rightarrow> ('d \<Rightarrow> string) \<Rightarrow> nat \<Rightarrow> InteractionPart \<Rightarrow> 'd dict_or_str \<Rightarrow> string
     \<Rightarrow> string option \<Rightarrow> ffi_call list \<Rightarrow> (error + unit) \<times> ffi_call list" where
  "with_plugin_contents eng json_dumps handle self_part contents content_type part log =
     (let contents' = (case contents of Dict d \<Rightarrow> json_dumps d | Str s \<Rightarrow> s) in
      case parse_interaction_part self_part part of
        Inl e \<Rightarrow> (Inl e, log)
      | Inr p \<Rightarrow> call eng (Ffi_interaction_contents handle p content_type contents') log)"

text \<open>The methods every interaction has, as operations a caller can issue.\<close>

datatype 'd base_op =
    Given string "string option" "string option" "'d dict_or_str option"
  | With_body "string option" string "string option"
  | With_binary_file "bytes option" string "string option"
  | With_multipart_file string "string option" string "string option" "string option"
  | Test_name string
  | With_plugin_contents "'d dict_or_str" string "string option"

fun exec_base ::
  "engine \<Rightarrow> ('d \<Rightarrow> string) \<Rightarrow> nat \<Rightarrow> InteractionPart \<Rightarrow> 'd base_op \<Rightarrow> ffi_call list
     \<Rightarrow> (error + unit) \<times> ffi_call list" where
  "exec_base eng dumps h sp (Given state name val parameters) log =
     given eng dumps h state name val parameters log"
| "exec_base eng dumps h sp (With_body body content_type part) log =
     with_body eng h sp body content_type part log"
| "exec_base eng dumps h sp (With_binary_file body content_type part) log =
     with_binary_file eng h sp body content_type part log"
| "exec_base eng dumps h sp (With_multipart_file part_name path content_type part boundary) log =
     with_multipart_file eng h sp part_name path content_type part boundary log"
| "exec_base eng dumps h sp (Test_name name) log = test_name eng h name log"
| "exec_base eng dumps h sp (With_plugin_contents contents content_type part) log =
     with_plugin_contents eng dumps h sp contents content_type part log"

section \<open>HttpInteraction\<close>

text \<open>
  The fields assigned by \<^verbatim>\<open>HttpInteraction.__init__\<close>. The two
  \<^verbatim>\<open>defaultdict(int)\<close> are total functions: a key never stored reads 0.
\<close>

record HttpInteraction =
  http_description :: string
  http_handle :: nat
  http_interaction_part :: InteractionPart
  request_indices :: "InteractionPart \<times> string \<Rightarrow> nat"
  parameter_indices :: "string \<Rightarrow> nat"

text \<open>An object next to the log of the engine calls made on its behalf.\<close>

type_synonym 'o world = "'o \<times> ffi_call list"

text \<open>
  \<^verbatim>\<open>HttpInteraction(pact_handle, description)\<close>: the engine creates the interaction
  and returns its handle, or raises, and then no object exists.
\<close>

definition HttpInteraction_init ::
  "engine \<Rightarrow> nat \<Rightarrow> string \<Rightarrow> ffi_call list \<Rightarrow> (error + HttpInteraction) \<times> ffi_call list" where
  "HttpInteraction_init eng pact_handle description log =
     (case eng log (Ffi_new_interaction pact_handle description) of
        Inl e \<Rightarrow> Inl e
      | Inr h \<Rightarrow>
          Inr \<lparr> http_description = description, http_handle = h,
                http_interaction_part = REQUEST,
                request_indices = (\<lambda>k. 0), parameter_indices = (\<lambda>k. 0) \<rparr>,
      log @ [Ffi_new_interaction pact_handle description])"

text \<open>A call made for an object that the call itself leaves as it is.\<close>

definition call_on :: "engine \<Rightarrow> ffi_call \<Rightarrow> 'o world \<Rightarrow> (error + unit) \<times> 'o world" where
  "call_on eng c w = (case call eng c (snd w) of (r, log') \<Rightarrow> (r, (fst w, log')))"

definition with_request ::
  "engine \<Rightarrow> string \<Rightarrow> string \<Rightarrow> HttpInteraction world \<Rightarrow> (error + unit) \<times> HttpInteraction world" where
  "with_request eng method path w = call_on eng (Ffi_with_request (http_handle (fst w)) method path) w"

text \<open>
  \<^verbatim>\<open>with_header\<close>: the part is resolved first (and may raise); the counter is read and
  incremented before the engine is called, so the increment stays when the engine raises.
\<close>

definition with_header ::
  "engine \<Rightarrow> string \<Rightarrow> string \<Rightarrow> string option \<Rightarrow> HttpInteraction world
     \<Rightarrow> (error + unit) \<times> HttpInteraction world" where
  "with_header eng name val part w =
     (case parse_interaction_part (http_interaction_part (fst w)) part of
        Inl e \<Rightarrow> (Inl e, w)
      | Inr interaction_part \<Rightarrow>
          (let name_lower = lower name;
               index = request_indices (fst w) (interaction_part, name_lower);
               self' = (fst w)\<lparr>request_indices :=
                         (request_indices (fst w))((interaction_part, name_lower) := index + 1)\<rparr>
           in call_on eng (Ffi_with_header_v2 (http_handle self') interaction_part name index val)
                (self', snd w)))"

text \<open>
  \<^verbatim>\<open>dict[str, str] | Iterable[tuple[str, str]]\<close>: a dictionary is given by its items
  in insertion order, which is what \<^verbatim>\<open>headers.items()\<close> iterates over.
\<close>

datatype headers = HDict "(string \<times> string) list" | HPairs "(string \<times> string) list"

fun items :: "headers \<Rightarrow> (string \<times> string) list" where
  "items (HDict kvs) = kvs"
| "items (HPairs kvs) = kvs"

text \<open>The \<^verbatim>\<open>for name, value in headers\<close> loop: a raise leaves the loop.\<close>

fun with_headers_loop ::
  "engine \<Rightarrow> (string \<times> string) list \<Rightarrow> string option \<Rightarrow> HttpInteraction world
     \<Rightarrow> (error + unit) \<times> HttpInteraction world" where
  "with_headers_loop eng [] part w = (Inr (), w)"
| "with_headers_loop eng ((name, val) # rest) part w =
     (case with_header eng name val part w of
        (Inl e, w') \<Rightarrow> (Inl e, w')
      | (Inr u, w') \<Rightarrow> with_headers_loop eng rest part w')"

definition with_headers ::
  "engine \<Rightarrow> headers \<Rightarrow> string option \<Rightarrow> HttpInteraction world
     \<Rightarrow> (error + unit) \<times> HttpInteraction world" where
  "with_headers eng hs part w = with_headers_loop eng (items hs) part w"

definition set_header ::
  "engine \<Rightarrow> string \<Rightarrow> string \<Rightarrow> string option \<Rightarrow> HttpInteraction world
     \<Rightarrow> (error + unit) \<times> HttpInteraction world" where
  "set_header eng name val part w =
     (case parse_interaction_part (http_interaction_part (fst w)) part of
        Inl e \<Rightarrow> (Inl e, w)
      | Inr p \<Rightarrow> call_on eng (Ffi_set_header (http_handle (fst w)) p name val) w)"

fun set_headers_loop ::
  "engine \<Rightarrow> (string \<times> string) list \<Rightarrow> string option \<Rightarrow> HttpInteraction world
     \<Rightarrow> (error + unit) \<times> HttpInteraction world" where
  "set_headers_loop eng [] part w = (Inr (), w)"
| "set_headers_loop eng ((name, val) # rest) part w =
     (case set_header eng name val part w of
        (Inl e, w') \<Rightarrow> (Inl e, w')
      | (Inr u, w') \<Rightarrow> set_headers_loop eng rest part w')"

definition set_headers ::
  "engine \<Rightarrow> headers \<Rightarrow> string option \<Rightarrow> HttpInteraction world
     \<Rightarrow> (error + unit) \<times> HttpInteraction world" where
  "set_headers eng hs part w = set_headers_loop eng (items hs) part w"

definition with_query_parameter ::
  "engine \<Rightarrow> string \<Rightarrow> string \<Rightarrow> HttpInteraction world \<Rightarrow> (error + unit) \<times> HttpInteraction world" where
  "with_query_parameter eng name val w =
     (let index = parameter_indices (fst w) name;
          self' = (fst w)\<lparr>parameter_indices := (parameter_indices (fst w))(name := index + 1)\<rparr>
      in call_on eng (Ffi_with_query_parameter_v2 (http_handle self') name index val)
           (self', snd w))"

fun with_query_parameters_loop ::
  "engine \<Rightarrow> (string \<times> string) list \<Rightarrow> HttpInteraction world
     \<Rightarrow> (error + unit) \<times> HttpInteraction world" where
  "with_query_parameters_loop eng [] w = (Inr (), w)"
| "with_query_parameters_loop eng ((name, val) # rest) w =
     (case with_query_parameter eng name val w of
        (Inl e, w') \<Rightarrow> (Inl e, w')
      | (Inr u, w') \<Rightarrow> with_query_parameters_loop eng rest w')"

definition with_query_parameters ::
  "engine \<Rightarrow> headers \<Rightarrow> HttpInteraction world \<Rightarrow> (error + unit) \<times> HttpInteraction world" where
  "with_query_parameters eng ps w = with_query_parameters_loop eng (items ps) w"

text \<open>
  \<^verbatim>\<open>will_respond_with\<close>: the engine is called first; the part is flipped only when
  that call returns.
\<close>

definition will_respond_with ::
  "engine \<Rightarrow> int \<Rightarrow> HttpInteraction world \<Rightarrow> (error + unit) \<times> HttpInteraction world" where
  "will_respond_with eng status w =
     (case call eng (Ffi_response_status (http_handle (fst w)) status) (snd w) of
        (Inl e, log') \<Rightarrow> (Inl e, (fst w, log'))
      | (Inr u, log') \<Rightarrow> (Inr (), ((fst w)\<lparr>http_interaction_part := RESPONSE\<rparr>, log')))"

text \<open>Every public method of an \<^verbatim>\<open>HttpInteraction\<close>, inherited or its own.\<close>

datatype 'd http_op =
    Base "'d base_op"
  | With_request string string
  | With_header string string "string option"
  | With_headers headers "string option"
  | Set_header string string "string option"
  | Set_headers headers "string option"
  | With_query_parameter string string
  | With_query_parameters headers
  | Will_respond_with int

fun exec_http ::
  "engine \<Rightarrow> ('d \<Rightarrow> string) \<Rightarrow> 'd http_op \<Rightarrow> HttpInteraction world
     \<Rightarrow> (error + unit) \<times> HttpInteraction world" where
  "exec_http eng dumps (Base b) w =
     (case exec_base eng dumps (http_handle (fst w)) (http_interaction_part (fst w)) b (snd w) of
        (r, log') \<Rightarrow> (r, (fst w, log')))"
| "exec_http eng dumps (With_request method path) w = with_request eng method path w"
| "exec_http eng dumps (With_header name val part) w = with_header eng name val part w"
| "exec_http eng dumps (With_headers hs part) w = with_headers eng hs part w"
| "exec_http eng dumps (Set_header name val part) w = set_header eng name val part w"
| "exec_http eng dumps (Set_headers hs part) w = set_headers eng hs part w"
| "exec_http eng dumps (With_query_parameter name val) w = with_query_parameter eng name val w"
| "exec_http eng dumps (With_query_parameters ps) w = with_query_parameters eng ps w"
| "exec_http eng dumps (Will_respond_with status) w = will_respond_with eng status w"


text \<open>
  Any sequence of calls on one interaction, by a caller that may catch what a call raises
  and go on: each call runs in the state the previous one left, raised or not.
\<close>

fun run_http ::
  "engine \<Rightarrow> ('d \<Rightarrow> string) \<Rightarrow> 'd http_op list \<Rightarrow> HttpInteraction world \<Rightarrow> HttpInteraction world" where
  "run_http eng dumps [] w = w"
| "run_http eng dumps (x # xs) w = run_http eng dumps xs (snd (exec_http eng dumps x w))"

section \<open>Reading the log\<close>

text \<open>
  The key under which \<^verbatim>\<open>with_header\<close> counts a header call (its part and its
  lowercased name), the index the call carries, and the number of header calls with a
  given key in a list of calls.
\<close>

definition header_key :: "ffi_call \<Rightarrow> (InteractionPart \<times> string) option" where
  "header_key c = (case c of Ffi_with_header_v2 h p n i v \<Rightarrow> Some (p, lower n) | _ \<Rightarrow> None)"

definition header_index :: "ffi_call \<Rightarrow> nat option" where
  "header_index c = (case c of Ffi_with_header_v2 h p n i v \<Rightarrow> Some i | _ \<Rightarrow> None)"

definition header_count :: "InteractionPart \<times> string \<Rightarrow> ffi_call list \<Rightarrow> nat" where
  "header_count k cs = length (filter (\<lambda>c. header_key c = Some k) cs)"

text \<open>
  The counters of an interaction agree with a list of calls: each counter is the number
  of header calls with its key, and each header call carries the number of header calls
  with the same key before it.
\<close>

definition indexed :: "HttpInteraction \<Rightarrow> ffi_call list \<Rightarrow> bool" where
  "indexed self cs \<longleftrightarrow>
     (\<forall>k. request_indices self k = header_count k cs) \<and>
     (\<forall>j<length cs. \<forall>k. header_key (cs ! j) = Some k \<longrightarrow>
         header_index (cs ! j) = Some (header_count k (take j cs)))"

text \<open>
  The invariant of a run: the log is the log at creation followed by calls that the
  counters agree with.
\<close>

definition inv_idx :: "ffi_call list \<Rightarrow> HttpInteraction world \<Rightarrow> bool" where
  "inv_idx log1 w \<longleftrightarrow> (\<exists>cs. snd w = log1 @ cs \<and> indexed (fst w) cs)"

text \<open>The part a call is made for, for the calls that take one.\<close>

definition part_of_call :: "ffi_call \<Rightarrow> InteractionPart option" where
  "part_of_call c =
     (case c of
        Ffi_with_body h p ct b \<Rightarrow> Some p
      | Ffi_with_binary_file h p ct b \<Rightarrow> Some p
      | Ffi_with_multipart_file_v2 h p pn path ct bd \<Rightarrow> Some p
      | Ffi_interaction_contents h p ct cn \<Rightarrow> Some p
      | Ffi_with_header_v2 h p n i v \<Rightarrow> Some p
      | Ffi_set_header h p n v \<Rightarrow> Some p
      | _ \<Rightarrow> None)"

text \<open>
  The \<^verbatim>\<open>part\<close> argument of the methods that take one and make one call:
  \<^verbatim>\<open>with_body\<close>, \<^verbatim>\<open>with_binary_file\<close>, \<^verbatim>\<open>with_multipart_file\<close>,
  \<^verbatim>\<open>with_plugin_contents\<close>, \<^verbatim>\<open>with_header\<close> and \<^verbatim>\<open>set_header\<close>.
\<close>

fun part_argument :: "'d http_op \<Rightarrow> string option option" where
  "part_argument (Base (With_body body content_type part)) = Some part"
| "part_argument (Base (With_binary_file body content_type part)) = Some part"
| "part_argument (Base (With_multipart_file part_name path content_type part boundary)) = Some part"
| "part_argument (Base (With_plugin_contents contents content_type part)) = Some part"
| "part_argument (With_header name val part) = Some part"
| "part_argument (Set_header name val part) = Some part"
| "part_argument x = None"

fun is_will_respond_with :: "'d http_op \<Rightarrow> bool" where
  "is_will_respond_with (Will_respond_with status) = True"
| "is_will_respond_with x = False"

section \<open>The shapes of \<^verbatim>\<open>given\<close>\<close>

text \<open>
  The three call shapes as the specification words them: the state alone; a name and a
  value without parameters; parameters without a name and a value.
\<close>

definition sanctioned_shape :: "string option \<Rightarrow> string option \<Rightarrow> 'd dict_or_str option \<Rightarrow> bool" where
  "sanctioned_shape name val parameters \<longleftrightarrow>
     (name = None \<and> val = None \<and> parameters = None) \<or>
     (name \<noteq> None \<and> val \<noteq> None \<and> parameters = None) \<or>
     (parameters \<noteq> None \<and> name = None \<and> val = None)"

section \<open>AsyncMessageInteraction and SyncMessageInteraction\<close>

text \<open>
  \<^verbatim>\<open>AsyncMessageInteraction\<close> stores no part: its \<^verbatim>\<open>_interaction_part\<close> property
  returns \<^verbatim>\<open>REQUEST\<close>.
\<close>

record AsyncMessageInteraction =
  async_description :: string
  async_handle :: nat

definition AsyncMessageInteraction_init ::
  "engine \<Rightarrow> nat \<Rightarrow> string \<Rightarrow> ffi_call list \<Rightarrow> (error + AsyncMessageInteraction) \<times> ffi_call list" where
  "AsyncMessageInteraction_init eng pact_handle description log =
     (case eng log (Ffi_new_message_interaction pact_handle description) of
        Inl e \<Rightarrow> Inl e
      | Inr h \<Rightarrow> Inr \<lparr> async_description = description, async_handle = h \<rparr>,
      log @ [Ffi_new_message_interaction pact_handle description])"

definition async_interaction_part :: "AsyncMessageInteraction \<Rightarrow> InteractionPart" where
  "async_interaction_part self = REQUEST"

text \<open>
  \<^verbatim>\<open>SyncMessageInteraction\<close> stores a part, set to \<^verbatim>\<open>REQUEST\<close> by
  \<^verbatim>\<open>__init__\<close>, and its \<^verbatim>\<open>_interaction_part\<close> property returns the field. The
  class defines \<^verbatim>\<open>__init__\<close> and the two properties only, so its public methods are
  those inherited from \<^verbatim>\<open>Interaction\<close>, none of which assigns a field.
\<close>

record SyncMessageInteraction =
  sync_description :: string
  sync_handle :: nat
  sync_interaction_part :: InteractionPart

definition SyncMessageInteraction_init ::
  "engine \<Rightarrow> nat \<Rightarrow> string \<Rightarrow> ffi_call list \<Rightarrow> (error + SyncMessageInteraction) \<times> ffi_call list" where
  "SyncMessageInteraction_init eng pact_handle description log =
     (case eng log (Ffi_new_sync_message_interaction pact_handle description) of
        Inl e \<Rightarrow> Inl e
      | Inr h \<Rightarrow>
          Inr \<lparr> sync_description = description, sync_handle = h,
                sync_interaction_part = REQUEST \<rparr>,
      log @ [Ffi_new_sync_message_interaction pact_handle description])"

definition exec_sync ::
  "engine \<Rightarrow> ('d \<Rightarrow> string) \<Rightarrow> 'd base_op \<Rightarrow> SyncMessageInteraction world
     \<Rightarrow> (error + unit) \<times> SyncMessageInteraction world" where
  "exec_sync eng dumps b w =
     (case exec_base eng dumps (sync_handle (fst w)) (sync_interaction_part (fst w)) b (snd w) of
        (r, log') \<Rightarrow> (r, (fst w, log')))"

fun run_sync ::
  "engine \<Rightarrow> ('d \<Rightarrow> string) \<Rightarrow> 'd base_op list \<Rightarrow> SyncMessageInteraction world
     \<Rightarrow> SyncMessageInteraction world" where
  "run_sync eng dumps [] w = w"
| "run_sync eng dumps (b # bs) w = run_sync eng dumps bs (snd (exec_sync eng dumps b w))"

definition exec_async ::
  "engine \<Rightarrow> ('d \<Rightarrow> string) \<Rightarrow> 'd base_op \<Rightarrow> AsyncMessageInteraction world
     \<Rightarrow> (error + unit) \<times> AsyncMessageInteraction world" where
  "exec_async eng dumps b w =
     (case exec_base eng dumps (async_handle (fst w)) (async_interaction_part (fst w)) b (snd w) of
        (r, log') \<Rightarrow> (r, (fst w, log')))"

text \<open>The part argument of the inherited methods that take one.\<close>

fun base_part_argument :: "'d base_op \<Rightarrow> string option option" where
  "base_part_argument (With_body body content_type part) = Some part"
| "base_part_argument (With_binary_file body content_type part) = Some part"
| "base_part_argument (With_multipart_file part_name path content_type part boundary) = Some part"
| "base_part_argument (With_plugin_contents contents content_type part) = Some part"
| "base_part_argument b = None"

section \<open>Pact\<close>

text \<open>
  The fields assigned by \<^verbatim>\<open>Pact.__init__\<close>. \<^verbatim>\<open>_interactions\<close> is a
  \<^verbatim>\<open>Set[Interaction]\<close>.
\<close>

datatype interaction =
    Http HttpInteraction
  | Async AsyncMessageInteraction
  | Sync SyncMessageInteraction

record Pact =
  pact_consumer :: string
  pact_provider :: string
  pact_interactions :: "interaction set"
  pact_handle :: nat

definition Pact_init ::
  "engine \<Rightarrow> string \<Rightarrow> string \<Rightarrow> ffi_call list \<Rightarrow> (error + Pact) \<times> ffi_call list" where
  "Pact_init eng consumer provider log =
     (if consumer = [] then (Inl (ValueError ''Consumer name cannot be empty.''), log)
      else if provider = [] then (Inl (ValueError ''Provider name cannot be empty.''), log)
      else (case eng log (Ffi_new_pact consumer provider) of
              Inl e \<Rightarrow> Inl e
            | Inr h \<Rightarrow>
                Inr \<lparr> pact_consumer = consumer, pact_provider = provider,
                      pact_interactions = {}, pact_handle = h \<rparr>,
            log @ [Ffi_new_pact consumer provider]))"

text \<open>
  \<^verbatim>\<open>version: str | PactSpecification\<close>. The members of the enumeration are declared
  in \<^verbatim>\<open>pact.v3.ffi\<close>: their names are a parameter, and \<^verbatim>\<open>PactSpecification[name]\<close>
  raises \<^verbatim>\<open>KeyError\<close> for a name that is not among them.
\<close>

datatype version_arg = VStr string | VSpec PactSpecification

definition PactSpecification_getitem :: "string list \<Rightarrow> string \<Rightarrow> error + PactSpecification" where
  "PactSpecification_getitem members name =
     (if name \<in> set members then Inr (Member name) else Inl (KeyError name))"

definition with_specification ::
  "engine \<Rightarrow> string list \<Rightarrow> version_arg \<Rightarrow> Pact world \<Rightarrow> (error + unit) \<times> Pact world" where
  "with_specification eng members version w =
     (case version of
        VStr s \<Rightarrow>
          (let v = replace_dots (upper s) in
           case (if startswith_V v then PactSpecification_getitem members v
                 else PactSpecification_getitem members (''V'' @ v)) of
             Inl e \<Rightarrow> (Inl e, w)
           | Inr spec \<Rightarrow> call_on eng (Ffi_with_specification (pact_handle (fst w)) spec) w)
      | VSpec spec \<Rightarrow> call_on eng (Ffi_with_specification (pact_handle (fst w)) spec) w)"

definition using_plugin ::
  "engine \<Rightarrow> string \<Rightarrow> string option \<Rightarrow> Pact world \<Rightarrow> (error + unit) \<times> Pact world" where
  "using_plugin eng name version w = call_on eng (Ffi_using_plugin (pact_handle (fst w)) name version) w"

text \<open>The \<^verbatim>\<open>for k, v in metadata.items()\<close> loop.\<close>

fun with_metadata ::
  "engine \<Rightarrow> string \<Rightarrow> (string \<times> string) list \<Rightarrow> Pact world \<Rightarrow> (error + unit) \<times> Pact world" where
  "with_metadata eng namespace [] w = (Inr (), w)"
| "with_metadata eng namespace ((k, v) # rest) w =
     (case call_on eng (Ffi_with_pact_metadata (pact_handle (fst w)) namespace k v) w of
        (Inl e, w') \<Rightarrow> (Inl e, w')
      | (Inr u, w') \<Rightarrow> with_metadata eng namespace rest w')"

text \<open>
  \<^verbatim>\<open>upon_receiving\<close> returns the interaction the constructor of the chosen class
  builds, and assigns nothing.
\<close>

definition upon_receiving ::
  "engine \<Rightarrow> string \<Rightarrow> string \<Rightarrow> Pact world \<Rightarrow> (error + interaction) \<times> Pact world" where
  "upon_receiving eng description kind w =
     (if kind = ''HTTP'' then
        (case HttpInteraction_init eng (pact_handle (fst w)) description (snd w) of
           (Inl e, log') \<Rightarrow> (Inl e, (fst w, log'))
         | (Inr i, log') \<Rightarrow> (Inr (Http i), (fst w, log')))
      else if kind = ''Async'' then
        (case AsyncMessageInteraction_init eng (pact_handle (fst w)) description (snd w) of
           (Inl e, log') \<Rightarrow> (Inl e, (fst w, log'))
         | (Inr i, log') \<Rightarrow> (Inr (Async i), (fst w, log')))
      else if kind = ''Sync'' then
        (case SyncMessageInteraction_init eng (pact_handle (fst w)) description (snd w) of
           (Inl e, log') \<Rightarrow> (Inl e, (fst w, log'))
         | (Inr i, log') \<Rightarrow> (Inr (Sync i), (fst w, log')))
      else (Inl (ValueError (''Invalid interaction type: '' @ kind)), w))"

definition serve :: "string \<Rightarrow> int \<Rightarrow> string \<Rightarrow> string option \<Rightarrow> Pact \<Rightarrow> PactServer" where
  "serve addr port transport transport_config self =
     PactServer_init (pact_handle self) addr port transport transport_config"

text \<open>The iterators are the engine's: the number it returns stands for one.\<close>

definition call_for_handle ::
  "engine \<Rightarrow> ffi_call \<Rightarrow> 'o world \<Rightarrow> (error + nat) \<times> 'o world" where
  "call_for_handle eng c w = (eng (snd w) c, (fst w, snd w @ [c]))"

definition messages :: "engine \<Rightarrow> Pact world \<Rightarrow> (error + nat) \<times> Pact world" where
  "messages eng w = call_for_handle eng (Ffi_pact_handle_get_message_iter (pact_handle (fst w))) w"

definition interactions :: "engine \<Rightarrow> string \<Rightarrow> Pact world \<Rightarrow> (error + nat) \<times> Pact world" where
  "interactions eng kind w =
     (if kind = ''HTTP'' then
        call_for_handle eng (Ffi_pact_handle_get_sync_http_iter (pact_handle (fst w))) w
      else if kind = ''Sync'' then
        call_for_handle eng (Ffi_pact_handle_get_sync_message_iter (pact_handle (fst w))) w
      else if kind = ''Async'' then
        call_for_handle eng (Ffi_pact_handle_get_message_iter (pact_handle (fst w))) w
      else (Inl (ValueError (''Unknown interaction type: '' @ kind)), w))"

text \<open>\<^verbatim>\<open>Path.cwd()\<close> is a parameter.\<close>

definition write_file ::
  "engine \<Rightarrow> string \<Rightarrow> string option \<Rightarrow> bool \<Rightarrow> Pact world \<Rightarrow> (error + unit) \<times> Pact world" where
  "write_file eng cwd directory overwrite w =
     (let directory' = (case directory of None \<Rightarrow> cwd | Some d \<Rightarrow> d) in
      call_on eng (Ffi_pact_handle_write_file (pact_handle (fst w)) directory' overwrite) w)"

text \<open>Every public method of a \<^verbatim>\<open>Pact\<close>, and what a call of one returns.\<close>

datatype pact_op =
    With_specification version_arg
  | Using_plugin string "string option"
  | With_metadata string "(string \<times> string) list"
  | Upon_receiving string string
  | Serve string int string "string option"
  | Messages
  | Interactions string
  | Write_file "string option" bool

datatype pact_result =
    Returned_self
  | Returned_interaction interaction
  | Returned_server PactServer
  | Returned_iterator nat
  | Returned_none

fun exec_pact ::
  "engine \<Rightarrow> string list \<Rightarrow> string \<Rightarrow> pact_op \<Rightarrow> Pact world \<Rightarrow> (error + pact_result) \<times> Pact world" where
  "exec_pact eng members cwd (With_specification version) w =
     (case with_specification eng members version w of
        (r, w') \<Rightarrow> (map_sum id (\<lambda>u. Returned_self) r, w'))"
| "exec_pact eng members cwd (Using_plugin name version) w =
     (case using_plugin eng name version w of (r, w') \<Rightarrow> (map_sum id (\<lambda>u. Returned_self) r, w'))"
| "exec_pact eng members cwd (With_metadata namespace metadata) w =
     (case with_metadata eng namespace metadata w of
        (r, w') \<Rightarrow> (map_sum id (\<lambda>u. Returned_self) r, w'))"
| "exec_pact eng members cwd (Upon_receiving description kind) w =
     (case upon_receiving eng description kind w of
        (r, w') \<Rightarrow> (map_sum id Returned_interaction r, w'))"
| "exec_pact eng members cwd (Serve addr port transport transport_config) w =
     (Inr (Returned_server (serve addr port transport transport_config (fst w))), w)"
| "exec_pact eng members cwd Messages w =
     (case messages eng w of (r, w') \<Rightarrow> (map_sum id Returned_iterator r, w'))"
| "exec_pact eng members cwd (Interactions kind) w =
     (case interactions eng kind w of (r, w') \<Rightarrow> (map_sum id Returned_iterator r, w'))"
| "exec_pact eng members cwd (Write_file directory overwrite) w =
     (case write_file eng cwd directory overwrite w of
        (r, w') \<Rightarrow> (map_sum id (\<lambda>u. Returned_none) r, w'))"

fun run_pact ::
  "engine \<Rightarrow> string list \<Rightarrow> string \<Rightarrow> pact_op list \<Rightarrow> Pact world \<Rightarrow> Pact world" where
  "run_pact eng members cwd [] w = w"
| "run_pact eng members cwd (x # xs) w = run_pact eng members cwd xs (snd (exec_pact eng members cwd x w))"

text \<open>
  The name under which \<^verbatim>\<open>with_specification\<close> looks a version string up: the
  argument of \<^verbatim>\<open>PactSpecification[...]\<close> in whichever branch is taken.
\<close>

definition specification_name :: "string \<Rightarrow> string" where
  "specification_name s =
     (let v = replace_dots (upper s) in if startswith_V v then v else ''V'' @ v)"

section \<open>The provider states of the engine\<close>

text \<open>
  Modelled from the spec: the provider states the engine accumulates behind
  \<^verbatim>\<open>pact.v3.ffi.given\<close>, \<^verbatim>\<open>given_with_param\<close> and \<^verbatim>\<open>given_with_params\<close>, whose
  bodies are in the binding and the engine, not in this file. The specification: the
  states are an ordered list of pairs of a state string and its merged parameters;
  repeated calls with the same state merge their parameters into one entry, later values
  for the same key winning; a name and a value register a single parameter under the
  state; a parameters string that is not valid JSON is treated as a literal parameter
  value under the key \<^verbatim>\<open>"value"\<close> rather than rejected. The engine's JSON reader is a
  parameter: it returns the members of a JSON object, and \<open>None\<close> for a string that
  is not valid JSON.
\<close>

type_synonym provider_states = "(string \<times> (string \<times> string) list) list"

text \<open>
  Modelled from the spec: a later value for a parameter key replaces the earlier one;
  a new key is added after the others.
\<close>

fun set_param :: "string \<Rightarrow> string \<Rightarrow> (string \<times> string) list \<Rightarrow> (string \<times> string) list" where
  "set_param k v [] = [(k, v)]"
| "set_param k v ((k', v') # rest) =
     (if k' = k then (k, v) # rest else (k', v') # set_param k v rest)"

text \<open>Modelled from the spec: the parameters of a call merged into those already there.\<close>

definition merge_params :: "(string \<times> string) list \<Rightarrow> (string \<times> string) list \<Rightarrow> (string \<times> string) list" where
  "merge_params new old = foldl (\<lambda>acc (k, v). set_param k v acc) old new"

text \<open>
  Modelled from the spec: a state already in the list takes the new parameters into its
  entry; a new state is added at the end.
\<close>

fun add_provider_state :: "string \<Rightarrow> (string \<times> string) list \<Rightarrow> provider_states \<Rightarrow> provider_states" where
  "add_provider_state st ps [] = [(st, merge_params ps [])]"
| "add_provider_state st ps ((st', ps') # rest) =
     (if st' = st then (st', merge_params ps ps') # rest
      else (st', ps') # add_provider_state st ps rest)"

text \<open>
  Modelled from the spec: what one call of the binding does to the provider states of the
  interaction with handle \<open>h\<close>; \<^verbatim>\<open>given_with_params\<close> with a string that is not
  valid JSON registers the string itself under the key \<^verbatim>\<open>"value"\<close>.
\<close>

definition engine_given ::
  "(string \<Rightarrow> (string \<times> string) list option) \<Rightarrow> nat \<Rightarrow> provider_states \<Rightarrow> ffi_call \<Rightarrow> provider_states" where
  "engine_given read_json h states c =
     (case c of
        Ffi_given h' st \<Rightarrow> (if h' = h then add_provider_state st [] states else states)
      | Ffi_given_with_param h' st n v \<Rightarrow>
          (if h' = h then add_provider_state st [(n, v)] states else states)
      | Ffi_given_with_params h' st ps \<Rightarrow>
          (if h' = h then
             (case read_json ps of
                Some kvs \<Rightarrow> add_provider_state st kvs states
              | None \<Rightarrow> add_provider_state st [(''value'', ps)] states)
           else states)
      | _ \<Rightarrow> states)"

text \<open>
  Modelled from the spec: the provider states of an interaction after the calls of a log,
  none of which the engine rejected.
\<close>

definition provider_states_of ::
  "(string \<Rightarrow> (string \<times> string) list option) \<Rightarrow> nat \<Rightarrow> ffi_call list \<Rightarrow> provider_states" where
  "provider_states_of read_json h log = foldl (engine_given read_json h) [] log"

section \<open>Example values\<close>

text \<open>An engine that accepts every call, and hands out the length of the log as a handle.\<close>

definition always_ok :: engine where
  "always_ok log c = Inr (length log)"

definition example_http :: HttpInteraction where
  "example_http = \<lparr> http_description = ''a request'', http_handle = 0,
      http_interaction_part = REQUEST, request_indices = (\<lambda>k. 0),
      parameter_indices = (\<lambda>k. 0) \<rparr>"

definition example_dumps :: "unit \<Rightarrow> string" where
  "example_dumps d = ''{}''"

definition example_sync :: SyncMessageInteraction where
  "example_sync = \<lparr> sync_description = ''a message'', sync_handle = 0,
      sync_interaction_part = REQUEST \<rparr>"

text \<open>
  Modelled from the spec: the names of the members of \<^verbatim>\<open>PactSpecification\<close>, which
  is declared in \<^verbatim>\<open>pact.v3.ffi\<close> and not in this file. The specification gives the
  strings \<^verbatim>\<open>"v3.0.0"\<close> and \<^verbatim>\<open>"3_0_0"\<close>, and \<^verbatim>\<open>"v4.2"\<close> and \<^verbatim>\<open>"4_2"\<close>,
  as resolving to a version value, and \<^verbatim>\<open>"bogus"\<close> as unrecognised: the members
  those strings name are the ones taken here.
\<close>

definition example_members :: "string list" where
  "example_members = [''V3_0_0'', ''V4_2'']"

definition example_pact :: Pact where
  "example_pact = \<lparr> pact_consumer = ''consumer'', pact_provider = ''provider'',
      pact_interactions = {}, pact_handle = 0 \<rparr>"

definition example_read_json :: "string \<Rightarrow> (string \<times> string) list option" where
  "example_read_json s = (if s = ''{}'' then Some [] else None)"

section \<open>Evaluating the examples\<close>

lemmas eval_http = HttpInteraction_init_def always_ok_def example_http_def example_dumps_def
  with_header_def set_header_def will_respond_with_def with_request_def with_query_parameter_def
  with_headers_def set_headers_def with_query_parameters_def
  call_on_def call_def parse_interaction_part_def Let_def
  lower_def lower_char_def ascii_uppercase_def ascii_lowercase_def
  given_def with_body_def with_binary_file_def with_multipart_file_def test_name_def
  with_plugin_contents_def

lemma example_init:
  "HttpInteraction_init always_ok 1 ''a request'' [] =
     (Inr example_http, [Ffi_new_interaction 1 ''a request''])"
  by (simp add: eval_http)

section \<open>Properties of the mock server lifecycle\<close>

lemma exit_releases: "srv_handle (PactServer_exit exc s) = None"
  by (simp add: PactServer_exit_def)

lemma with_server_releases:
  "srv_handle s = None \<Longrightarrow> srv_handle (snd (with_server ffi body s)) = None"
  by (simp add: with_server_def PactServer_enter_def exit_releases
           split: sum.splits prod.splits)

text \<open>
  C8. The port of a server reads 0 whenever it holds no handle: as constructed, after
  \<^verbatim>\<open>__exit__\<close> whatever the exception passed to it, and after a whole
  \<^verbatim>\<open>with\<close> block whose body raised or not; \<^verbatim>\<open>__exit__\<close> always leaves the
  handle cleared, and a second \<^verbatim>\<open>__exit__\<close> changes nothing.
\<close>

theorem server_port_zero_when_released:
  "PactServer_port (PactServer_init ph host port transport config) = 0
   \<and> PactServer_port (s\<lparr>srv_handle := None\<rparr>) = 0
   \<and> srv_handle (PactServer_exit exc s) = None
   \<and> PactServer_port (PactServer_exit exc s) = 0
   \<and> PactServer_exit exc (s\<lparr>srv_handle := None\<rparr>) = s\<lparr>srv_handle := None\<rparr>
   \<and> PactServer_exit exc' (PactServer_exit exc s) = PactServer_exit exc s
   \<and> PactServer_port
        (snd (with_server ffi body (PactServer_init ph host port transport config))) = 0"
proof -
  have released: "PactServer_port t = 0" if "srv_handle t = None" for t
    using that by (simp add: PactServer_port_def)
  have init: "srv_handle (PactServer_init ph host port transport config) = None"
    by (simp add: PactServer_init_def)
  have block: "srv_handle
      (snd (with_server ffi body (PactServer_init ph host port transport config))) = None"
    by (rule with_server_releases [OF init])
  show ?thesis
    using released [OF init] released [OF exit_releases] released [OF block]
    by (simp add: PactServer_exit_def PactServer_port_def)
qed

section \<open>Header indices\<close>

lemma header_count_snoc:
  "header_count k (cs @ [c]) = header_count k cs + (if header_key c = Some k then 1 else 0)"
  by (simp add: header_count_def)

lemma indexed_snoc_other:
  "indexed self cs \<Longrightarrow> header_key c = None \<Longrightarrow> request_indices self' = request_indices self
   \<Longrightarrow> indexed self' (cs @ [c])"
  by (auto simp: indexed_def header_count_snoc nth_append less_Suc_eq)

lemma indexed_snoc_header:
  assumes "indexed self cs"
  shows "indexed (self\<lparr>request_indices := (request_indices self)((p, lower n) := request_indices self (p, lower n) + 1)\<rparr>)
           (cs @ [Ffi_with_header_v2 h p n (request_indices self (p, lower n)) v])"
  using assms
  by (auto simp: indexed_def header_count_snoc nth_append less_Suc_eq header_key_def header_index_def)

lemma snd_call: "snd (call eng c log) = log @ [c]"
  by (simp add: call_def)

lemma snd_call_on: "snd (call_on eng c w) = (fst w, snd w @ [c])"
  by (simp add: call_on_def call_def)

lemma inv_idx_call_on:
  "inv_idx l w \<Longrightarrow> header_key c = None \<Longrightarrow> inv_idx l (snd (call_on eng c w))"
  unfolding inv_idx_def
  by (auto simp: snd_call_on intro: indexed_snoc_other)

lemma exec_base_log:
  "snd (exec_base eng dumps h sp b log) = log \<or>
   (\<exists>c. snd (exec_base eng dumps h sp b log) = log @ [c] \<and> header_key c = None)"
  by (cases b)
     (auto simp: given_def with_body_def with_binary_file_def with_multipart_file_def
        test_name_def with_plugin_contents_def snd_call header_key_def Let_def
        split: option.splits sum.splits dict_or_str.splits)

lemma inv_idx_base:
  assumes "inv_idx l w"
  shows "inv_idx l (snd (exec_http eng dumps (Base b) w))"
proof -
  from assms obtain cs where cs: "snd w = l @ cs" "indexed (fst w) cs"
    by (auto simp: inv_idx_def)
  show ?thesis
    using exec_base_log [of eng dumps "http_handle (fst w)" "http_interaction_part (fst w)" b "snd w"] cs
    by (auto simp: inv_idx_def split: prod.splits intro: indexed_snoc_other)
qed

lemma inv_idx_with_header:
  assumes "inv_idx l w"
  shows "inv_idx l (snd (with_header eng n v part w))"
proof (cases "parse_interaction_part (http_interaction_part (fst w)) part")
  case (Inl e)
  then show ?thesis using assms by (simp add: with_header_def)
next
  case (Inr p)
  from assms obtain cs where cs: "snd w = l @ cs" "indexed (fst w) cs"
    by (auto simp: inv_idx_def)
  show ?thesis
    using indexed_snoc_header [OF cs(2), of p n "http_handle (fst w)" v] cs(1) Inr
    by (auto simp: inv_idx_def with_header_def Let_def snd_call_on)
qed

lemma inv_idx_with_headers_loop:
  "inv_idx l w \<Longrightarrow> inv_idx l (snd (with_headers_loop eng kvs part w))"
proof (induction kvs arbitrary: w)
  case Nil
  then show ?case by simp
next
  case (Cons kv kvs)
  obtain n v where kv: "kv = (n, v)" by (cases kv)
  obtain r w' where step: "with_header eng n v part w = (r, w')" by (cases "with_header eng n v part w")
  have "inv_idx l w'" using inv_idx_with_header [OF Cons.prems, of eng n v part] step by simp
  then show ?case using Cons.IH [of w'] kv step by (cases r) simp_all
qed

lemma inv_idx_set_header:
  "inv_idx l w \<Longrightarrow> inv_idx l (snd (set_header eng n v part w))"
  by (cases "parse_interaction_part (http_interaction_part (fst w)) part")
     (auto simp: set_header_def header_key_def intro: inv_idx_call_on)

lemma inv_idx_set_headers_loop:
  "inv_idx l w \<Longrightarrow> inv_idx l (snd (set_headers_loop eng kvs part w))"
proof (induction kvs arbitrary: w)
  case Nil
  then show ?case by simp
next
  case (Cons kv kvs)
  obtain n v where kv: "kv = (n, v)" by (cases kv)
  obtain r w' where step: "set_header eng n v part w = (r, w')" by (cases "set_header eng n v part w")
  have "inv_idx l w'" using inv_idx_set_header [OF Cons.prems, of eng n v part] step by simp
  then show ?case using Cons.IH [of w'] kv step by (cases r) simp_all
qed

lemma inv_idx_with_query_parameter:
  assumes "inv_idx l w"
  shows "inv_idx l (snd (with_query_parameter eng n v w))"
proof -
  from assms obtain cs where cs: "snd w = l @ cs" "indexed (fst w) cs"
    by (auto simp: inv_idx_def)
  have "indexed ((fst w)\<lparr>parameter_indices := f\<rparr>) (cs @ [Ffi_with_query_parameter_v2 h n i v])" for f h i
    by (rule indexed_snoc_other [OF cs(2)]) (simp_all add: header_key_def)
  then show ?thesis using cs(1)
    by (auto simp: inv_idx_def with_query_parameter_def Let_def snd_call_on)
qed

lemma inv_idx_with_query_parameters_loop:
  "inv_idx l w \<Longrightarrow> inv_idx l (snd (with_query_parameters_loop eng kvs w))"
proof (induction kvs arbitrary: w)
  case Nil
  then show ?case by simp
next
  case (Cons kv kvs)
  obtain n v where kv: "kv = (n, v)" by (cases kv)
  obtain r w' where step: "with_query_parameter eng n v w = (r, w')"
    by (cases "with_query_parameter eng n v w")
  have "inv_idx l w'" using inv_idx_with_query_parameter [OF Cons.prems, of eng n v] step by simp
  then show ?case using Cons.IH [of w'] kv step by (cases r) simp_all
qed

lemma inv_idx_will_respond_with:
  assumes "inv_idx l w"
  shows "inv_idx l (snd (will_respond_with eng status w))"
proof -
  from assms obtain cs where cs: "snd w = l @ cs" "indexed (fst w) cs"
    by (auto simp: inv_idx_def)
  have "indexed ((fst w)\<lparr>http_interaction_part := q\<rparr>) (cs @ [Ffi_response_status h status])" for q h
    by (rule indexed_snoc_other [OF cs(2)]) (simp_all add: header_key_def)
  moreover have "indexed (fst w) (cs @ [Ffi_response_status h status])" for h
    by (rule indexed_snoc_other [OF cs(2)]) (simp_all add: header_key_def)
  ultimately show ?thesis using cs(1)
    by (auto simp: inv_idx_def will_respond_with_def call_def split: prod.splits sum.splits)
qed

lemma inv_idx_exec:
  "inv_idx l w \<Longrightarrow> inv_idx l (snd (exec_http eng dumps x w))"
proof (cases x)
  case (Base b)
  assume "inv_idx l w"
  then show ?thesis unfolding Base by (rule inv_idx_base)
qed (simp_all add: inv_idx_with_header inv_idx_with_headers_loop inv_idx_set_header
       inv_idx_set_headers_loop inv_idx_with_query_parameter inv_idx_with_query_parameters_loop
       inv_idx_will_respond_with inv_idx_call_on with_request_def header_key_def
       with_headers_def set_headers_def with_query_parameters_def)

lemma inv_idx_run:
  "inv_idx l w \<Longrightarrow> inv_idx l (run_http eng dumps xs w)"
  by (induction xs arbitrary: w) (simp_all add: inv_idx_exec)

lemma inv_idx_init:
  "HttpInteraction_init eng ph d log0 = (Inr i, log1) \<Longrightarrow> inv_idx log1 (i, log1)"
  by (auto simp: HttpInteraction_init_def inv_idx_def indexed_def header_count_def
      split: sum.splits)

text \<open>
  C2. In every sequence of calls on an HTTP interaction, the index passed with a header
  is the number of earlier \<^verbatim>\<open>with_header\<close> calls for the same resolved part and the
  same lowercased name: 0 for the first, one more for each further one, whatever was
  called for other names or for the other part in between; and the counter kept by the
  interaction is that number, so it is never reset.
\<close>

theorem header_index_counts:
  assumes "HttpInteraction_init eng ph d log0 = (Inr i, log1)"
  shows "\<exists>cs. snd (run_http eng dumps ops (i, log1)) = log1 @ cs
     \<and> (\<forall>k. request_indices (fst (run_http eng dumps ops (i, log1))) k = header_count k cs)
     \<and> (\<forall>j<length cs. \<forall>h p n idx v. cs ! j = Ffi_with_header_v2 h p n idx v \<longrightarrow>
            idx = header_count (p, lower n) (take j cs))"
proof -
  have "inv_idx log1 (run_http eng dumps ops (i, log1))"
    by (rule inv_idx_run [OF inv_idx_init [OF assms]])
  then obtain cs where cs: "snd (run_http eng dumps ops (i, log1)) = log1 @ cs"
      "indexed (fst (run_http eng dumps ops (i, log1))) cs"
    by (auto simp: inv_idx_def)
  have "idx = header_count (p, lower n) (take j cs)"
    if "j < length cs" "cs ! j = Ffi_with_header_v2 h p n idx v" for j h p n idx v
    using cs(2) that by (auto simp: indexed_def header_key_def header_index_def)
  with cs show ?thesis unfolding indexed_def by blast
qed

theorem header_index_counts_witness:
  "HttpInteraction_init always_ok 1 ''a request'' [] =
     (Inr example_http, [Ffi_new_interaction 1 ''a request''])
   \<and> snd (run_http always_ok example_dumps
         [With_header ''X-Foo'' ''bar'' None, With_header ''Accept'' ''a'' None,
          With_header ''x-foo'' ''baz'' None, Will_respond_with 200,
          With_header ''X-Foo'' ''r'' None, With_header ''X-FOO'' ''s'' (Some ''Request'')]
         (example_http, [Ffi_new_interaction 1 ''a request''])) =
       [Ffi_new_interaction 1 ''a request''] @
       [Ffi_with_header_v2 0 REQUEST ''X-Foo'' 0 ''bar'', Ffi_with_header_v2 0 REQUEST ''Accept'' 0 ''a'',
        Ffi_with_header_v2 0 REQUEST ''x-foo'' 1 ''baz'', Ffi_response_status 0 200,
        Ffi_with_header_v2 0 RESPONSE ''X-Foo'' 0 ''r'', Ffi_with_header_v2 0 REQUEST ''X-FOO'' 2 ''s'']
   \<and> (\<exists>cs. snd (run_http always_ok example_dumps
         [With_header ''X-Foo'' ''bar'' None, With_header ''Accept'' ''a'' None,
          With_header ''x-foo'' ''baz'' None, Will_respond_with 200,
          With_header ''X-Foo'' ''r'' None, With_header ''X-FOO'' ''s'' (Some ''Request'')]
         (example_http, [Ffi_new_interaction 1 ''a request''])) =
         [Ffi_new_interaction 1 ''a request''] @ cs
       \<and> (\<forall>j<length cs. \<forall>h p n idx v. cs ! j = Ffi_with_header_v2 h p n idx v \<longrightarrow>
            idx = header_count (p, lower n) (take j cs)))"
proof -
  have h: "HttpInteraction_init always_ok 1 ''a request'' [] =
     (Inr example_http, [Ffi_new_interaction 1 ''a request''])"
    by (rule example_init)
  have run: "snd (run_http always_ok example_dumps
         [With_header ''X-Foo'' ''bar'' None, With_header ''Accept'' ''a'' None,
          With_header ''x-foo'' ''baz'' None, Will_respond_with 200,
          With_header ''X-Foo'' ''r'' None, With_header ''X-FOO'' ''s'' (Some ''Request'')]
         (example_http, [Ffi_new_interaction 1 ''a request''])) =
       [Ffi_new_interaction 1 ''a request''] @
       [Ffi_with_header_v2 0 REQUEST ''X-Foo'' 0 ''bar'', Ffi_with_header_v2 0 REQUEST ''Accept'' 0 ''a'',
        Ffi_with_header_v2 0 REQUEST ''x-foo'' 1 ''baz'', Ffi_response_status 0 200,
        Ffi_with_header_v2 0 RESPONSE ''X-Foo'' 0 ''r'', Ffi_with_header_v2 0 REQUEST ''X-FOO'' 2 ''s'']"
    by (simp add: eval_http)
  from header_index_counts [OF h, of example_dumps
         "[With_header ''X-Foo'' ''bar'' None, With_header ''Accept'' ''a'' None,
          With_header ''x-foo'' ''baz'' None, Will_respond_with 200,
          With_header ''X-Foo'' ''r'' None, With_header ''X-FOO'' ''s'' (Some ''Request'')]"]
  have "\<exists>cs. snd (run_http always_ok example_dumps
         [With_header ''X-Foo'' ''bar'' None, With_header ''Accept'' ''a'' None,
          With_header ''x-foo'' ''baz'' None, Will_respond_with 200,
          With_header ''X-Foo'' ''r'' None, With_header ''X-FOO'' ''s'' (Some ''Request'')]
         (example_http, [Ffi_new_interaction 1 ''a request''])) =
         [Ffi_new_interaction 1 ''a request''] @ cs
       \<and> (\<forall>j<length cs. \<forall>h p n idx v. cs ! j = Ffi_with_header_v2 h p n idx v \<longrightarrow>
            idx = header_count (p, lower n) (take j cs))"
    by blast
  with h run show ?thesis by blast
qed

section \<open>Part resolution\<close>

lemma part_call_on: "http_interaction_part (fst (snd (call_on eng c w))) = http_interaction_part (fst w)"
  by (simp add: snd_call_on)

lemma part_with_header:
  "http_interaction_part (fst (snd (with_header eng n v part w))) = http_interaction_part (fst w)"
  by (cases "parse_interaction_part (http_interaction_part (fst w)) part")
     (simp_all add: with_header_def Let_def snd_call_on)

lemma part_set_header:
  "http_interaction_part (fst (snd (set_header eng n v part w))) = http_interaction_part (fst w)"
  by (cases "parse_interaction_part (http_interaction_part (fst w)) part")
     (simp_all add: set_header_def snd_call_on)

lemma part_with_query_parameter:
  "http_interaction_part (fst (snd (with_query_parameter eng n v w))) = http_interaction_part (fst w)"
  by (simp add: with_query_parameter_def Let_def snd_call_on)

lemma part_with_headers_loop:
  "http_interaction_part (fst (snd (with_headers_loop eng kvs part w))) = http_interaction_part (fst w)"
proof (induction kvs arbitrary: w)
  case Nil
  show ?case by simp
next
  case (Cons kv kvs)
  obtain n v where kv: "kv = (n, v)" by (cases kv)
  obtain r w' where step: "with_header eng n v part w = (r, w')" by (cases "with_header eng n v part w")
  have "http_interaction_part (fst w') = http_interaction_part (fst w)"
    using part_with_header [of eng n v part w] step by simp
  then show ?case using Cons.IH [of w'] kv step by (cases r) simp_all
qed

lemma part_set_headers_loop:
  "http_interaction_part (fst (snd (set_headers_loop eng kvs part w))) = http_interaction_part (fst w)"
proof (induction kvs arbitrary: w)
  case Nil
  show ?case by simp
next
  case (Cons kv kvs)
  obtain n v where kv: "kv = (n, v)" by (cases kv)
  obtain r w' where step: "set_header eng n v part w = (r, w')" by (cases "set_header eng n v part w")
  have "http_interaction_part (fst w') = http_interaction_part (fst w)"
    using part_set_header [of eng n v part w] step by simp
  then show ?case using Cons.IH [of w'] kv step by (cases r) simp_all
qed

lemma part_with_query_parameters_loop:
  "http_interaction_part (fst (snd (with_query_parameters_loop eng kvs w))) = http_interaction_part (fst w)"
proof (induction kvs arbitrary: w)
  case Nil
  show ?case by simp
next
  case (Cons kv kvs)
  obtain n v where kv: "kv = (n, v)" by (cases kv)
  obtain r w' where step: "with_query_parameter eng n v w = (r, w')"
    by (cases "with_query_parameter eng n v w")
  have "http_interaction_part (fst w') = http_interaction_part (fst w)"
    using part_with_query_parameter [of eng n v w] step by simp
  then show ?case using Cons.IH [of w'] kv step by (cases r) simp_all
qed

lemma part_exec_other:
  "\<not> is_will_respond_with x \<Longrightarrow>
   http_interaction_part (fst (snd (exec_http eng dumps x w))) = http_interaction_part (fst w)"
  by (cases x)
     (simp_all add: part_with_header part_set_header part_with_query_parameter
        part_with_headers_loop part_set_headers_loop part_with_query_parameters_loop
        with_request_def snd_call_on with_headers_def set_headers_def with_query_parameters_def
        split: prod.splits)

lemma part_will_respond_with:
  "http_interaction_part (fst (snd (will_respond_with eng status w))) = RESPONSE \<or>
   http_interaction_part (fst (snd (will_respond_with eng status w))) = http_interaction_part (fst w)"
  by (simp add: will_respond_with_def call_def split: sum.splits)

lemma part_exec_response:
  "http_interaction_part (fst w) = RESPONSE \<Longrightarrow>
   http_interaction_part (fst (snd (exec_http eng dumps x w))) = RESPONSE"
proof (cases "is_will_respond_with x")
  case False
  assume "http_interaction_part (fst w) = RESPONSE"
  then show ?thesis using part_exec_other [OF False, of eng dumps w] by simp
next
  case True
  assume r: "http_interaction_part (fst w) = RESPONSE"
  from True obtain status where "x = Will_respond_with status" by (cases x) simp_all
  then show ?thesis using part_will_respond_with [of eng status w] r by auto
qed

lemma part_run_response:
  "http_interaction_part (fst w) = RESPONSE \<Longrightarrow>
   http_interaction_part (fst (run_http eng dumps xs w)) = RESPONSE"
  by (induction xs arbitrary: w) (simp_all add: part_exec_response)

lemma part_run_request:
  "\<forall>x\<in>set xs. \<not> is_will_respond_with x \<Longrightarrow>
   http_interaction_part (fst (run_http eng dumps xs w)) = http_interaction_part (fst w)"
  by (induction xs arbitrary: w) (simp_all add: part_exec_other)

lemma default_part_call:
  "part_argument x = Some None \<Longrightarrow>
   \<exists>c. snd (snd (exec_http eng dumps x w)) = snd w @ [c]
      \<and> part_of_call c = Some (http_interaction_part (fst w))"
  by (cases x rule: part_argument.cases)
     (simp_all add: with_body_def with_binary_file_def with_multipart_file_def
        with_plugin_contents_def with_header_def set_header_def parse_interaction_part_def
        snd_call snd_call_on part_of_call_def Let_def case_prod_beta)

text \<open>
  C1. A new HTTP interaction is in the Request part and stays there while no
  \<^verbatim>\<open>will_respond_with\<close> is called; once \<^verbatim>\<open>will_respond_with\<close> has returned,
  the part is Response after every further sequence of calls; and a call of
  \<^verbatim>\<open>with_body\<close>, \<^verbatim>\<open>with_binary_file\<close>, \<^verbatim>\<open>with_multipart_file\<close>,
  \<^verbatim>\<open>with_plugin_contents\<close>, \<^verbatim>\<open>with_header\<close> or \<^verbatim>\<open>set_header\<close> whose
  \<^verbatim>\<open>part\<close> is \<^verbatim>\<open>None\<close> makes its engine call for the current part.
\<close>

theorem part_resolution:
  "(HttpInteraction_init eng ph d log0 = (Inr i, log1) \<and> (\<forall>x\<in>set pre. \<not> is_will_respond_with x)
      \<longrightarrow> http_interaction_part (fst (run_http eng dumps pre (i, log1))) = REQUEST)
   \<and> (will_respond_with eng status w = (Inr (), w')
      \<longrightarrow> http_interaction_part (fst (run_http eng dumps post w')) = RESPONSE)
   \<and> (part_argument x = Some None
      \<longrightarrow> (\<exists>c. snd (snd (exec_http eng dumps x s)) = snd s @ [c]
             \<and> part_of_call c = Some (http_interaction_part (fst s))))"
proof (intro conjI impI)
  assume a: "HttpInteraction_init eng ph d log0 = (Inr i, log1) \<and> (\<forall>x\<in>set pre. \<not> is_will_respond_with x)"
  then have "http_interaction_part i = REQUEST"
    by (auto simp: HttpInteraction_init_def split: sum.splits)
  with a show "http_interaction_part (fst (run_http eng dumps pre (i, log1))) = REQUEST"
    using part_run_request [of pre eng dumps "(i, log1)"] by simp
next
  assume "will_respond_with eng status w = (Inr (), w')"
  then have "http_interaction_part (fst w') = RESPONSE"
    by (auto simp: will_respond_with_def split: prod.splits sum.splits)
  then show "http_interaction_part (fst (run_http eng dumps post w')) = RESPONSE"
    by (rule part_run_response)
next
  assume "part_argument x = Some None"
  then show "\<exists>c. snd (snd (exec_http eng dumps x s)) = snd s @ [c]
             \<and> part_of_call c = Some (http_interaction_part (fst s))"
    by (rule default_part_call)
qed

theorem part_resolution_witness:
  "HttpInteraction_init always_ok 1 ''a request'' [] =
     (Inr example_http, [Ffi_new_interaction 1 ''a request''])
   \<and> http_interaction_part (fst (run_http always_ok example_dumps
         [With_header ''X'' ''v'' None, Base (With_body (Some ''{}'') ''text/plain'' None)]
         (example_http, [Ffi_new_interaction 1 ''a request'']))) = REQUEST
   \<and> will_respond_with always_ok 200 (example_http, [Ffi_new_interaction 1 ''a request'']) =
       (Inr (), (example_http\<lparr>http_interaction_part := RESPONSE\<rparr>,
                 [Ffi_new_interaction 1 ''a request'', Ffi_response_status 0 200]))
   \<and> http_interaction_part (fst (run_http always_ok example_dumps
         [With_header ''X'' ''v'' None, Will_respond_with 404]
         (example_http\<lparr>http_interaction_part := RESPONSE\<rparr>,
          [Ffi_new_interaction 1 ''a request'', Ffi_response_status 0 200]))) = RESPONSE
   \<and> (\<exists>c. snd (snd (exec_http always_ok example_dumps (With_header ''X'' ''v'' None)
                (example_http\<lparr>http_interaction_part := RESPONSE\<rparr>,
                 [Ffi_new_interaction 1 ''a request'', Ffi_response_status 0 200]))) =
            [Ffi_new_interaction 1 ''a request'', Ffi_response_status 0 200] @ [c]
          \<and> part_of_call c = Some RESPONSE)"
proof -
  have h1: "HttpInteraction_init always_ok 1 ''a request'' [] =
     (Inr example_http, [Ffi_new_interaction 1 ''a request''])"
    by (rule example_init)
  have h2: "\<forall>x\<in>set [With_header ''X'' ''v'' None, Base (With_body (Some ''{}'') ''text/plain'' None)].
              \<not> is_will_respond_with (x :: unit http_op)"
    by simp
  have h3: "will_respond_with always_ok 200 (example_http, [Ffi_new_interaction 1 ''a request'']) =
       (Inr (), (example_http\<lparr>http_interaction_part := RESPONSE\<rparr>,
                 [Ffi_new_interaction 1 ''a request'', Ffi_response_status 0 200]))"
    by (simp add: eval_http)
  have h4: "part_argument (With_header ''X'' ''v'' None :: unit http_op) = Some None"
    by simp
  show ?thesis
    using part_resolution [where eng = always_ok and ph = 1 and d = "''a request''"
        and ?log0.0 = "[]" and i = example_http and ?log1.0 = "[Ffi_new_interaction 1 ''a request'']"
        and pre = "[With_header ''X'' ''v'' None, Base (With_body (Some ''{}'') ''text/plain'' None)]"
        and dumps = example_dumps and status = 200
        and w = "(example_http, [Ffi_new_interaction 1 ''a request''])"
        and w' = "(example_http\<lparr>http_interaction_part := RESPONSE\<rparr>,
                 [Ffi_new_interaction 1 ''a request'', Ffi_response_status 0 200])"
        and s = "(example_http\<lparr>http_interaction_part := RESPONSE\<rparr>,
                 [Ffi_new_interaction 1 ''a request'', Ffi_response_status 0 200])"
        and post = "[With_header ''X'' ''v'' None, Will_respond_with 404]"
        and x = "With_header ''X'' ''v'' None"] h1 h2 h3 h4
    by simp
qed

section \<open>Provider states\<close>

text \<open>
  C3. \<^verbatim>\<open>given\<close> makes one engine call, and returns or raises as the engine does,
  exactly when its arguments have one of the three sanctioned shapes; for every other
  combination of absent and present arguments it raises the \<^verbatim>\<open>ValueError\<close> and
  calls nothing.
\<close>

theorem given_shapes:
  "(sanctioned_shape name val parameters \<longrightarrow>
      (\<exists>c. given eng dumps h state name val parameters log = (fst (call eng c log), log @ [c])))
   \<and> (sanctioned_shape name val parameters \<and> (\<forall>c. \<exists>r. eng log c = Inr r) \<longrightarrow>
         fst (given eng dumps h state name val parameters log) = Inr ())
   \<and> (\<not> sanctioned_shape name val parameters \<longrightarrow>
         given eng dumps h state name val parameters log =
           (Inl (ValueError ''Invalid combination of arguments.''), log))"
proof -
  have one: "\<exists>c. given eng dumps h state name val parameters log = (fst (call eng c log), log @ [c])"
    if "sanctioned_shape name val parameters"
  proof -
    have "call eng c log = (fst (call eng c log), log @ [c])" for c
      by (simp add: call_def)
    then show ?thesis using that
      by (cases name; cases val; cases parameters)
         (auto simp: sanctioned_shape_def given_def split: dict_or_str.splits)
  qed
  have ok: "fst (call eng c log) = Inr ()" if "\<forall>c. \<exists>r. eng log c = Inr r" for c
  proof -
    from that obtain r where "eng log c = Inr r" by blast
    then show ?thesis by (simp add: call_def)
  qed
  have bad: "given eng dumps h state name val parameters log =
           (Inl (ValueError ''Invalid combination of arguments.''), log)"
    if "\<not> sanctioned_shape name val parameters"
    using that
    by (cases name; cases val; cases parameters)
       (auto simp: sanctioned_shape_def given_def split: dict_or_str.splits)
  show ?thesis using one ok bad by (metis fst_conv)
qed

theorem given_shapes_witness:
  "sanctioned_shape (Some ''id'') (Some ''123'') (None :: unit dict_or_str option)
   \<and> (\<exists>c. given always_ok example_dumps 0 ''a user exists'' (Some ''id'') (Some ''123'') None [] =
          (fst (call always_ok c []), [] @ [c]))
   \<and> fst (given always_ok example_dumps 0 ''a user exists'' (Some ''id'') (Some ''123'') None []) = Inr ()
   \<and> \<not> sanctioned_shape (Some ''id'') None (Some (Str ''{}'' :: unit dict_or_str))
   \<and> given always_ok example_dumps 0 ''a user exists'' (Some ''id'') None (Some (Str ''{}'')) [] =
          (Inl (ValueError ''Invalid combination of arguments.''), [])"
proof -
  have s1: "sanctioned_shape (Some ''id'') (Some ''123'') (None :: unit dict_or_str option)"
    by (simp add: sanctioned_shape_def)
  have s2: "\<forall>c. \<exists>r. always_ok [] c = Inr r"
    by (simp add: always_ok_def)
  have s3: "\<not> sanctioned_shape (Some ''id'') None (Some (Str ''{}'' :: unit dict_or_str))"
    by (simp add: sanctioned_shape_def)
  show ?thesis
    using given_shapes [of "Some ''id''" "Some ''123''" None always_ok example_dumps 0 "''a user exists''" "[]"]
      given_shapes [of "Some ''id''" None "Some (Str ''{}'')" always_ok example_dumps 0 "''a user exists''" "[]"]
      s1 s2 s3
    by simp
qed

section \<open>Several headers at once\<close>




section \<open>\<^verbatim>\<open>set_header\<close> and the header counters\<close>

text \<open>
  C5 as stated fails: \<^verbatim>\<open>set_header\<close> does not increment the counter that
  \<^verbatim>\<open>with_header\<close> increments, and a \<^verbatim>\<open>with_header\<close> that follows a
  \<^verbatim>\<open>set_header\<close> for the same name still carries index 0.
\<close>

theorem set_header_increments_counterexample:
  "request_indices (fst (snd (set_header always_ok ''X-Foo'' ''bar'' None
       (example_http, [Ffi_new_interaction 1 ''a request''])))) (REQUEST, lower ''X-Foo'')
     \<noteq> request_indices example_http (REQUEST, lower ''X-Foo'') + 1
   \<and> request_indices (fst (snd (with_header always_ok ''X-Foo'' ''bar'' None
       (example_http, [Ffi_new_interaction 1 ''a request''])))) (REQUEST, lower ''X-Foo'')
     = request_indices example_http (REQUEST, lower ''X-Foo'') + 1
   \<and> snd (run_http always_ok example_dumps
        [Set_header ''X-Foo'' ''bar'' None, With_header ''X-Foo'' ''baz'' None]
        (example_http, [Ffi_new_interaction 1 ''a request''])) =
      [Ffi_new_interaction 1 ''a request'', Ffi_set_header 0 REQUEST ''X-Foo'' ''bar'',
       Ffi_with_header_v2 0 REQUEST ''X-Foo'' 0 ''baz'']"
  by (simp add: eval_http)

text \<open>
  C5, as amended. \<^verbatim>\<open>set_header\<close> resolves the part as \<^verbatim>\<open>with_header\<close> does, and
  raises for the same \<^verbatim>\<open>part\<close> arguments; it passes the name and the value to the
  engine as they are, with no index, and leaves the interaction, its header counters
  included, as it was. Only \<^verbatim>\<open>with_header\<close> reads and increments a counter.
\<close>

theorem set_header_keeps_counters:
  "fst (snd (set_header eng name val part w)) = fst w
   \<and> (parse_interaction_part (http_interaction_part (fst w)) part = Inr p \<longrightarrow>
        snd (snd (set_header eng name val part w)) =
          snd w @ [Ffi_set_header (http_handle (fst w)) p name val]
      \<and> snd (snd (with_header eng name val part w)) =
          snd w @ [Ffi_with_header_v2 (http_handle (fst w)) p name
                     (request_indices (fst w) (p, lower name)) val]
      \<and> request_indices (fst (snd (with_header eng name val part w))) =
          (request_indices (fst w))((p, lower name) := request_indices (fst w) (p, lower name) + 1))
   \<and> (parse_interaction_part (http_interaction_part (fst w)) part = Inl e \<longrightarrow>
        set_header eng name val part w = (Inl e, w) \<and> with_header eng name val part w = (Inl e, w))"
  by (cases "parse_interaction_part (http_interaction_part (fst w)) part")
     (simp_all add: set_header_def with_header_def Let_def snd_call_on)

theorem set_header_keeps_counters_witness:
  "parse_interaction_part (http_interaction_part example_http) None = Inr REQUEST
   \<and> fst (snd (set_header always_ok ''X-Foo'' ''bar'' None (example_http, []))) = example_http
   \<and> snd (snd (set_header always_ok ''X-Foo'' ''bar'' None (example_http, []))) =
        [Ffi_set_header 0 REQUEST ''X-Foo'' ''bar'']
   \<and> snd (snd (with_header always_ok ''X-Foo'' ''bar'' None (example_http, []))) =
        [Ffi_with_header_v2 0 REQUEST ''X-Foo'' 0 ''bar'']
   \<and> parse_interaction_part (http_interaction_part example_http) (Some ''Neither'') =
        Inl (ValueError ''Invalid part: Neither'')
   \<and> set_header always_ok ''X-Foo'' ''bar'' (Some ''Neither'') (example_http, []) =
        (Inl (ValueError ''Invalid part: Neither''), (example_http, []))"
proof -
  have p1: "parse_interaction_part (http_interaction_part (fst (example_http, []::ffi_call list))) None
              = Inr REQUEST"
    by (simp add: parse_interaction_part_def example_http_def)
  have p2: "parse_interaction_part (http_interaction_part (fst (example_http, []::ffi_call list)))
              (Some ''Neither'') = Inl (ValueError ''Invalid part: Neither'')"
    by (simp add: parse_interaction_part_def example_http_def)
  show ?thesis
    using set_header_keeps_counters [of always_ok "''X-Foo''" "''bar''" None "(example_http, [])" REQUEST]
      set_header_keeps_counters [of always_ok "''X-Foo''" "''bar''" "Some ''Neither''" "(example_http, [])"
         _ "ValueError ''Invalid part: Neither''"]
      p1 p2
    by (simp add: example_http_def)
qed

section \<open>The synchronous message interaction never leaves the Request part\<close>

lemma exec_sync_object: "fst (snd (exec_sync eng dumps b w)) = fst w"
  by (simp add: exec_sync_def case_prod_beta)

lemma run_sync_object: "fst (run_sync eng dumps bs w) = fst w"
  by (induction bs arbitrary: w) (simp_all add: exec_sync_object)

lemma sync_default_part_call:
  "base_part_argument b = Some None \<Longrightarrow>
   \<exists>c. snd (snd (exec_sync eng dumps b w)) = snd w @ [c]
      \<and> part_of_call c = Some (sync_interaction_part (fst w))"
  by (cases b rule: base_part_argument.cases)
     (simp_all add: exec_sync_def with_body_def with_binary_file_def with_multipart_file_def
        with_plugin_contents_def parse_interaction_part_def snd_call part_of_call_def Let_def
        case_prod_beta)

text \<open>
  C6. What the code does: a synchronous message interaction starts in the Request part,
  and after every sequence of calls of its methods the part is still Request, so a call
  whose \<^verbatim>\<open>part\<close> is \<^verbatim>\<open>None\<close> is always made for the Request. No operation
  flips the part, unlike \<^verbatim>\<open>will_respond_with\<close> of the HTTP interaction.
\<close>

theorem sync_part_stays_request:
  "(SyncMessageInteraction_init eng ph d log0 = (Inr i, log1) \<longrightarrow>
      sync_interaction_part (fst (run_sync eng dumps bs (i, log1))) = REQUEST)
   \<and> (SyncMessageInteraction_init eng ph d log0 = (Inr i, log1) \<and> base_part_argument b = Some None \<longrightarrow>
      (\<exists>c. snd (snd (exec_sync eng dumps b (run_sync eng dumps bs (i, log1)))) =
              snd (run_sync eng dumps bs (i, log1)) @ [c]
         \<and> part_of_call c = Some REQUEST))"
proof -
  have init: "sync_interaction_part i = REQUEST"
    if "SyncMessageInteraction_init eng ph d log0 = (Inr i, log1)"
    using that by (auto simp: SyncMessageInteraction_init_def split: sum.splits)
  have stays: "sync_interaction_part (fst (run_sync eng dumps bs (i, log1))) = REQUEST"
    if "SyncMessageInteraction_init eng ph d log0 = (Inr i, log1)"
    using init [OF that] by (simp add: run_sync_object)
  show ?thesis
    using stays sync_default_part_call [of b eng dumps "run_sync eng dumps bs (i, log1)"]
    by auto
qed

theorem sync_part_stays_request_witness:
  "SyncMessageInteraction_init always_ok 1 ''a message'' [] =
     (Inr example_sync, [Ffi_new_sync_message_interaction 1 ''a message''])
   \<and> sync_interaction_part (fst (run_sync always_ok example_dumps
        [With_body (Some ''ping'') ''text/plain'' None, Test_name ''t'',
         With_body (Some ''pong'') ''text/plain'' (Some ''Response'')]
        (example_sync, [Ffi_new_sync_message_interaction 1 ''a message'']))) = REQUEST
   \<and> snd (snd (exec_sync always_ok example_dumps (With_body (Some ''late'') ''text/plain'' None)
        (run_sync always_ok example_dumps
          [With_body (Some ''ping'') ''text/plain'' None, Test_name ''t'',
           With_body (Some ''pong'') ''text/plain'' (Some ''Response'')]
          (example_sync, [Ffi_new_sync_message_interaction 1 ''a message''])))) =
       [Ffi_new_sync_message_interaction 1 ''a message'',
        Ffi_with_body 0 REQUEST ''text/plain'' (Some ''ping''),
        Ffi_interaction_test_name 0 ''t'',
        Ffi_with_body 0 RESPONSE ''text/plain'' (Some ''pong''),
        Ffi_with_body 0 REQUEST ''text/plain'' (Some ''late'')]"
proof -
  have h: "SyncMessageInteraction_init always_ok 1 ''a message'' [] =
     (Inr example_sync, [Ffi_new_sync_message_interaction 1 ''a message''])"
    by (simp add: SyncMessageInteraction_init_def always_ok_def example_sync_def)
  have log: "snd (snd (exec_sync always_ok example_dumps (With_body (Some ''late'') ''text/plain'' None)
        (run_sync always_ok example_dumps
          [With_body (Some ''ping'') ''text/plain'' None, Test_name ''t'',
           With_body (Some ''pong'') ''text/plain'' (Some ''Response'')]
          (example_sync, [Ffi_new_sync_message_interaction 1 ''a message''])))) =
       [Ffi_new_sync_message_interaction 1 ''a message'',
        Ffi_with_body 0 REQUEST ''text/plain'' (Some ''ping''),
        Ffi_interaction_test_name 0 ''t'',
        Ffi_with_body 0 RESPONSE ''text/plain'' (Some ''pong''),
        Ffi_with_body 0 REQUEST ''text/plain'' (Some ''late'')]"
    by (simp add: exec_sync_def example_sync_def eval_http)
  show ?thesis
    using sync_part_stays_request [of always_ok 1 "''a message''" "[]" example_sync
        "[Ffi_new_sync_message_interaction 1 ''a message'']" example_dumps
        "[With_body (Some ''ping'') ''text/plain'' None, Test_name ''t'',
          With_body (Some ''pong'') ''text/plain'' (Some ''Response'')]"] h log
    by simp
qed

section \<open>The Pact keeps its fields\<close>

lemma call_on_object: "fst (snd (call_on eng c w)) = fst w"
  by (simp add: snd_call_on)

lemma with_specification_object: "fst (snd (with_specification eng members version w)) = fst w"
  by (simp add: with_specification_def Let_def call_on_object split: version_arg.splits sum.splits)

lemma with_metadata_object: "fst (snd (with_metadata eng namespace kvs w)) = fst w"
proof (induction kvs arbitrary: w)
  case Nil
  show ?case by simp
next
  case (Cons kv kvs)
  obtain k v where kv: "kv = (k, v)" by (cases kv)
  obtain r w' where step: "call_on eng (Ffi_with_pact_metadata (pact_handle (fst w)) namespace k v) w = (r, w')"
    by (cases "call_on eng (Ffi_with_pact_metadata (pact_handle (fst w)) namespace k v) w")
  have "fst w' = fst w"
    using call_on_object [of eng "Ffi_with_pact_metadata (pact_handle (fst w)) namespace k v" w] step
    by simp
  then show ?case using Cons.IH [of w'] kv step by (cases r) simp_all
qed

lemma upon_receiving_object: "fst (snd (upon_receiving eng description kind w)) = fst w"
  by (simp add: upon_receiving_def case_prod_beta split: sum.splits)

lemma upon_receiving_log:
  "snd (snd (upon_receiving eng description kind w)) =
     (if kind = ''HTTP'' then snd w @ [Ffi_new_interaction (pact_handle (fst w)) description]
      else if kind = ''Async'' then
        snd w @ [Ffi_new_message_interaction (pact_handle (fst w)) description]
      else if kind = ''Sync'' then
        snd w @ [Ffi_new_sync_message_interaction (pact_handle (fst w)) description]
      else snd w)"
  by (simp add: upon_receiving_def case_prod_beta HttpInteraction_init_def
      AsyncMessageInteraction_init_def SyncMessageInteraction_init_def split: sum.splits)

lemma exec_pact_object: "fst (snd (exec_pact eng members cwd x w)) = fst w"
  by (cases x)
     (simp_all add: case_prod_beta with_specification_object with_metadata_object
        upon_receiving_object using_plugin_def call_on_object messages_def interactions_def
        call_for_handle_def write_file_def Let_def)

lemma run_pact_object: "fst (run_pact eng members cwd xs w) = fst w"
  by (induction xs arbitrary: w) (simp_all add: exec_pact_object)

text \<open>
  C10. \<^verbatim>\<open>upon_receiving\<close> leaves the Pact as it was and, for a known kind, adds to the
  engine's log the one call that creates the interaction under the Pact's handle; with
  the default kind it returns the HTTP interaction built around the handle the engine
  gave. No method of a Pact changes its fields: after every sequence of calls the Pact
  is the one \<^verbatim>\<open>__init__\<close> built, and its \<^verbatim>\<open>_interactions\<close> set is still
  empty.
\<close>

theorem upon_receiving_keeps_pact:
  "fst (snd (upon_receiving eng description kind w)) = fst w
   \<and> snd (snd (upon_receiving eng description kind w)) =
       (if kind = ''HTTP'' then snd w @ [Ffi_new_interaction (pact_handle (fst w)) description]
        else if kind = ''Async'' then
          snd w @ [Ffi_new_message_interaction (pact_handle (fst w)) description]
        else if kind = ''Sync'' then
          snd w @ [Ffi_new_sync_message_interaction (pact_handle (fst w)) description]
        else snd w)
   \<and> (eng (snd w) (Ffi_new_interaction (pact_handle (fst w)) description) = Inr h \<longrightarrow>
        fst (upon_receiving eng description ''HTTP'' w) =
          Inr (Http \<lparr> http_description = description, http_handle = h,
                      http_interaction_part = REQUEST, request_indices = (\<lambda>k. 0),
                      parameter_indices = (\<lambda>k. 0) \<rparr>))
   \<and> fst (run_pact eng members cwd xs w) = fst w
   \<and> (Pact_init eng consumer provider log0 = (Inr p, log1) \<longrightarrow>
        pact_interactions p = {}
      \<and> fst (run_pact eng members cwd xs (p, log1)) = p
      \<and> pact_interactions (fst (run_pact eng members cwd xs (p, log1))) = {})"
proof -
  have new: "fst (upon_receiving eng description ''HTTP'' w) =
          Inr (Http \<lparr> http_description = description, http_handle = h,
                      http_interaction_part = REQUEST, request_indices = (\<lambda>k. 0),
                      parameter_indices = (\<lambda>k. 0) \<rparr>)"
    if "eng (snd w) (Ffi_new_interaction (pact_handle (fst w)) description) = Inr h"
    using that by (simp add: upon_receiving_def HttpInteraction_init_def)
  have empty: "pact_interactions p = {}" if "Pact_init eng consumer provider log0 = (Inr p, log1)"
    using that by (auto simp: Pact_init_def split: if_splits sum.splits)
  show ?thesis
    using new empty
    by (simp add: upon_receiving_object upon_receiving_log run_pact_object)
qed

theorem upon_receiving_keeps_pact_witness:
  "always_ok [Ffi_new_pact ''consumer'' ''provider'']
       (Ffi_new_interaction (pact_handle example_pact) ''a request'') = Inr 1
   \<and> fst (upon_receiving always_ok ''a request'' ''HTTP''
        (example_pact, [Ffi_new_pact ''consumer'' ''provider''])) =
       Inr (Http \<lparr> http_description = ''a request'', http_handle = 1,
                   http_interaction_part = REQUEST, request_indices = (\<lambda>k. 0),
                   parameter_indices = (\<lambda>k. 0) \<rparr>)
   \<and> Pact_init always_ok ''consumer'' ''provider'' [] =
       (Inr example_pact, [Ffi_new_pact ''consumer'' ''provider''])
   \<and> pact_interactions (fst (run_pact always_ok example_members ''/tmp''
        [Upon_receiving ''a request'' ''HTTP'', Upon_receiving ''a message'' ''Async'',
         Upon_receiving ''another'' ''Sync'', Upon_receiving ''odd'' ''Other'']
        (example_pact, [Ffi_new_pact ''consumer'' ''provider'']))) = {}
   \<and> snd (run_pact always_ok example_members ''/tmp''
        [Upon_receiving ''a request'' ''HTTP'', Upon_receiving ''a message'' ''Async'',
         Upon_receiving ''another'' ''Sync'', Upon_receiving ''odd'' ''Other'']
        (example_pact, [Ffi_new_pact ''consumer'' ''provider''])) =
       [Ffi_new_pact ''consumer'' ''provider'', Ffi_new_interaction 0 ''a request'',
        Ffi_new_message_interaction 0 ''a message'', Ffi_new_sync_message_interaction 0 ''another'']"
proof -
  have h1: "always_ok (snd (example_pact, [Ffi_new_pact ''consumer'' ''provider'']))
       (Ffi_new_interaction (pact_handle (fst (example_pact, [Ffi_new_pact ''consumer'' ''provider''])))
          ''a request'') = Inr 1"
    by (simp add: always_ok_def)
  have h2: "Pact_init always_ok ''consumer'' ''provider'' [] =
       (Inr example_pact, [Ffi_new_pact ''consumer'' ''provider''])"
    by (simp add: Pact_init_def always_ok_def example_pact_def)
  have log: "snd (run_pact always_ok example_members ''/tmp''
        [Upon_receiving ''a request'' ''HTTP'', Upon_receiving ''a message'' ''Async'',
         Upon_receiving ''another'' ''Sync'', Upon_receiving ''odd'' ''Other'']
        (example_pact, [Ffi_new_pact ''consumer'' ''provider''])) =
       [Ffi_new_pact ''consumer'' ''provider'', Ffi_new_interaction 0 ''a request'',
        Ffi_new_message_interaction 0 ''a message'', Ffi_new_sync_message_interaction 0 ''another'']"
    by (simp add: case_prod_beta upon_receiving_log upon_receiving_object example_pact_def)
  show ?thesis
    using upon_receiving_keeps_pact [of always_ok "''a request''" _
        "(example_pact, [Ffi_new_pact ''consumer'' ''provider''])" 1 example_members "''/tmp''"
        "[Upon_receiving ''a request'' ''HTTP'', Upon_receiving ''a message'' ''Async'',
          Upon_receiving ''another'' ''Sync'', Upon_receiving ''odd'' ''Other'']"
        "''consumer''" "''provider''" "[]" example_pact "[Ffi_new_pact ''consumer'' ''provider'']"]
      h1 h2 log
    by simp
qed

section \<open>Version strings\<close>

lemma upper_char_idem: "upper_char (upper_char c) = upper_char c"
  by (simp add: upper_char_def ascii_lowercase_def ascii_uppercase_def)

lemma upper_lower_char: "upper_char (lower_char c) = upper_char c"
  by (simp add: upper_char_def lower_char_def ascii_lowercase_def ascii_uppercase_def)

lemma upper_char_dot: "upper_char c = CHR ''.'' \<longleftrightarrow> c = CHR ''.''"
  by (simp add: upper_char_def ascii_lowercase_def ascii_uppercase_def)

lemma upper_char_underscore: "upper_char (CHR ''_'') = CHR ''_''"
  by (simp add: upper_char_def ascii_lowercase_def ascii_uppercase_def)

lemma upper_upper: "upper (upper s) = upper s"
  by (induction s) (simp_all add: upper_def upper_char_idem)

lemma upper_lower: "upper (lower s) = upper s"
  by (induction s) (simp_all add: upper_def lower_def upper_lower_char)

lemma name_upper: "specification_name (upper s) = specification_name s"
  by (simp add: specification_name_def upper_upper)

lemma name_lower: "specification_name (lower s) = specification_name s"
  by (simp add: specification_name_def upper_lower)

lemma name_dots: "specification_name (replace_dots s) = specification_name s"
proof -
  have "replace_dots (upper (replace_dots s)) = replace_dots (upper s)"
    by (induction s) (simp_all add: replace_dots_def upper_def upper_char_dot upper_char_underscore)
  then show ?thesis by (simp add: specification_name_def)
qed

lemma name_prefix:
  assumes "\<not> startswith_V (upper s)"
  shows "specification_name (CHR ''v'' # s) = specification_name s"
    and "specification_name (CHR ''V'' # s) = specification_name s"
proof -
  have v: "upper_char (CHR ''v'') = CHR ''V''" "upper_char (CHR ''V'') = CHR ''V''"
    by (simp_all add: upper_char_def ascii_lowercase_def ascii_uppercase_def)
  have "\<not> startswith_V (replace_dots (upper s))"
    using assms by (cases s) (auto simp: replace_dots_def upper_def)
  then show "specification_name (CHR ''v'' # s) = specification_name s"
    and "specification_name (CHR ''V'' # s) = specification_name s"
    by (simp_all add: specification_name_def replace_dots_def upper_def v)
qed

lemma with_specification_name:
  "with_specification eng members (VStr s) w =
     (if specification_name s \<in> set members
      then call_on eng (Ffi_with_specification (pact_handle (fst w)) (Member (specification_name s))) w
      else (Inl (KeyError (specification_name s)), w))"
  by (simp add: with_specification_def specification_name_def PactSpecification_getitem_def Let_def)

text \<open>
  C7. \<^verbatim>\<open>with_specification\<close> passes a typed version to the engine as it is. A string
  is looked up under its name in upper case, with \<^verbatim>\<open>.\<close> replaced by \<^verbatim>\<open>_\<close> and a
  \<^verbatim>\<open>V\<close> put in front unless it starts with one: so the case of the string, a leading
  \<^verbatim>\<open>v\<close> and the choice between \<^verbatim>\<open>.\<close> and \<^verbatim>\<open>_\<close> make no difference.
  \<^verbatim>\<open>"v3.0.0"\<close> and \<^verbatim>\<open>"3_0_0"\<close> both name the member \<^verbatim>\<open>V3_0_0\<close>: where the
  enumeration has it, both calls pass that one version value to the engine, and return
  or raise as the engine does (as \<^verbatim>\<open>"v4.2"\<close> and \<^verbatim>\<open>"4_2"\<close> with \<^verbatim>\<open>V4_2\<close>).
  A string whose name is no member of the enumeration, as \<^verbatim>\<open>"bogus"\<close> when
  \<^verbatim>\<open>VBOGUS\<close> is none, raises a \<^verbatim>\<open>KeyError\<close> and calls nothing.
\<close>

theorem specification_strings:
  "with_specification eng members (VSpec spec) w =
     call_on eng (Ffi_with_specification (pact_handle (fst w)) spec) w
   \<and> with_specification eng members (VStr ''v3.0.0'') w =
       with_specification eng members (VStr ''3_0_0'') w
   \<and> with_specification eng members (VStr ''v4.2'') w =
       with_specification eng members (VStr ''4_2'') w
   \<and> (''V3_0_0'' \<in> set members \<longrightarrow>
        with_specification eng members (VStr ''v3.0.0'') w =
          call_on eng (Ffi_with_specification (pact_handle (fst w)) (Member ''V3_0_0'')) w
      \<and> with_specification eng members (VStr ''3_0_0'') w =
          call_on eng (Ffi_with_specification (pact_handle (fst w)) (Member ''V3_0_0'')) w
      \<and> with_specification eng members (VStr ''v3.0.0'') w =
          with_specification eng members (VSpec (Member ''V3_0_0'')) w)
   \<and> (''V4_2'' \<in> set members \<longrightarrow>
        with_specification eng members (VStr ''v4.2'') w =
          call_on eng (Ffi_with_specification (pact_handle (fst w)) (Member ''V4_2'')) w
      \<and> with_specification eng members (VStr ''4_2'') w =
          call_on eng (Ffi_with_specification (pact_handle (fst w)) (Member ''V4_2'')) w)
   \<and> with_specification eng members (VStr (upper s)) w = with_specification eng members (VStr s) w
   \<and> with_specification eng members (VStr (lower s)) w = with_specification eng members (VStr s) w
   \<and> with_specification eng members (VStr (replace_dots s)) w =
       with_specification eng members (VStr s) w
   \<and> (\<not> startswith_V (upper s) \<longrightarrow>
        with_specification eng members (VStr (CHR ''v'' # s)) w =
          with_specification eng members (VStr s) w
      \<and> with_specification eng members (VStr (CHR ''V'' # s)) w =
          with_specification eng members (VStr s) w)
   \<and> (specification_name s \<in> set members \<longrightarrow>
        with_specification eng members (VStr s) w =
          call_on eng (Ffi_with_specification (pact_handle (fst w)) (Member (specification_name s))) w)
   \<and> (specification_name s \<notin> set members \<longrightarrow>
        with_specification eng members (VStr s) w = (Inl (KeyError (specification_name s)), w))
   \<and> (''VBOGUS'' \<notin> set members \<longrightarrow>
        with_specification eng members (VStr ''bogus'') w = (Inl (KeyError ''VBOGUS''), w))"
proof -
  have typed: "with_specification eng members (VSpec v) w =
     call_on eng (Ffi_with_specification (pact_handle (fst w)) v) w" for v
    by (simp add: with_specification_def)
  have n300: "specification_name ''v3.0.0'' = ''V3_0_0''" "specification_name ''3_0_0'' = ''V3_0_0''"
    by (simp_all add: specification_name_def replace_dots_def upper_def upper_char_def
        ascii_lowercase_def ascii_uppercase_def)
  have n42: "specification_name ''v4.2'' = ''V4_2''" "specification_name ''4_2'' = ''V4_2''"
    by (simp_all add: specification_name_def replace_dots_def upper_def upper_char_def
        ascii_lowercase_def ascii_uppercase_def)
  have bogus: "specification_name ''bogus'' = ''VBOGUS''"
    by (simp add: specification_name_def replace_dots_def upper_def upper_char_def
        ascii_lowercase_def ascii_uppercase_def)
  have pre: "specification_name (CHR ''v'' # s) = specification_name s
      \<and> specification_name (CHR ''V'' # s) = specification_name s" if "\<not> startswith_V (upper s)"
    using name_prefix [OF that] by simp
  show ?thesis
    unfolding with_specification_name typed
    using pre
    by (simp add: n300 n42 bogus name_upper name_lower name_dots)
qed

theorem specification_strings_witness:
  "''V3_0_0'' \<in> set example_members
   \<and> with_specification always_ok example_members (VStr ''v3.0.0'') (example_pact, []) =
       (Inr (), (example_pact, [Ffi_with_specification 0 (Member ''V3_0_0'')]))
   \<and> with_specification always_ok example_members (VStr ''3_0_0'') (example_pact, []) =
       (Inr (), (example_pact, [Ffi_with_specification 0 (Member ''V3_0_0'')]))
   \<and> ''V4_2'' \<in> set example_members
   \<and> with_specification always_ok example_members (VStr ''v4.2'') (example_pact, []) =
       (Inr (), (example_pact, [Ffi_with_specification 0 (Member ''V4_2'')]))
   \<and> with_specification always_ok example_members (VStr ''4_2'') (example_pact, []) =
       (Inr (), (example_pact, [Ffi_with_specification 0 (Member ''V4_2'')]))
   \<and> \<not> startswith_V (upper ''3.0.0'')
   \<and> with_specification always_ok example_members (VStr ''v3.0.0'') (example_pact, []) =
       with_specification always_ok example_members (VStr ''3.0.0'') (example_pact, [])
   \<and> specification_name ''3.0.0'' \<in> set example_members
   \<and> with_specification always_ok example_members (VStr ''3.0.0'') (example_pact, []) =
       (Inr (), (example_pact, [Ffi_with_specification 0 (Member ''V3_0_0'')]))
   \<and> specification_name ''bogus'' \<notin> set example_members
   \<and> ''VBOGUS'' \<notin> set example_members
   \<and> with_specification always_ok example_members (VStr ''bogus'') (example_pact, []) =
       (Inl (KeyError ''VBOGUS''), (example_pact, []))"
proof -
  have n: "specification_name ''3.0.0'' = ''V3_0_0''" "specification_name ''bogus'' = ''VBOGUS''"
    by (simp_all add: specification_name_def replace_dots_def upper_def upper_char_def
        ascii_lowercase_def ascii_uppercase_def)
  have h1: "''V3_0_0'' \<in> set example_members" "''V4_2'' \<in> set example_members"
    by (simp_all add: example_members_def)
  have h2: "\<not> startswith_V (upper ''3.0.0'')"
    by (simp add: upper_def upper_char_def ascii_lowercase_def ascii_uppercase_def)
  have h3: "specification_name ''3.0.0'' \<in> set example_members"
    by (simp add: n example_members_def)
  have h4: "specification_name ''bogus'' \<notin> set example_members"
      "''VBOGUS'' \<notin> set example_members"
    by (simp_all add: n example_members_def)
  have e: "call_on always_ok (Ffi_with_specification (pact_handle (fst (example_pact, []::ffi_call list))) v)
             (example_pact, []) = (Inr (), (example_pact, [Ffi_with_specification 0 v]))" for v
    by (simp add: call_on_def call_def always_ok_def example_pact_def)
  let ?W = "(example_pact, []::ffi_call list)"
  note a = specification_strings [of always_ok example_members _ ?W "''3.0.0''"]
  note b = specification_strings [of always_ok example_members _ ?W "''bogus''"]
  from a h1(1)
  have r1: "with_specification always_ok example_members (VStr ''v3.0.0'') ?W =
      call_on always_ok (Ffi_with_specification (pact_handle (fst ?W)) (Member ''V3_0_0'')) ?W"
    and r2: "with_specification always_ok example_members (VStr ''3_0_0'') ?W =
      call_on always_ok (Ffi_with_specification (pact_handle (fst ?W)) (Member ''V3_0_0'')) ?W"
    by blast+
  from a h1(2)
  have r3: "with_specification always_ok example_members (VStr ''v4.2'') ?W =
      call_on always_ok (Ffi_with_specification (pact_handle (fst ?W)) (Member ''V4_2'')) ?W"
    and r4: "with_specification always_ok example_members (VStr ''4_2'') ?W =
      call_on always_ok (Ffi_with_specification (pact_handle (fst ?W)) (Member ''V4_2'')) ?W"
    by blast+
  from a h2
  have r5: "with_specification always_ok example_members (VStr (CHR ''v'' # ''3.0.0'')) ?W =
      with_specification always_ok example_members (VStr ''3.0.0'') ?W"
    by blast
  from a h3
  have r6: "with_specification always_ok example_members (VStr ''3.0.0'') ?W =
      call_on always_ok (Ffi_with_specification (pact_handle (fst ?W))
        (Member (specification_name ''3.0.0''))) ?W"
    by blast
  from b h4(2)
  have r7: "with_specification always_ok example_members (VStr ''bogus'') ?W =
      (Inl (KeyError ''VBOGUS''), ?W)"
    by blast
  show ?thesis
    by (intro conjI)
       (rule h1 h2 h3 h4 r7 r5 [simplified] trans [OF r1 e] trans [OF r2 e] trans [OF r3 e]
          trans [OF r4 e] trans [OF r6 [unfolded n] e])+
qed

section \<open>A parameters string that is not JSON\<close>

text \<open>
  C4. For a string that the engine's JSON reader does not accept, \<^verbatim>\<open>given(state,
  parameters=s)\<close> hands the string to \<^verbatim>\<open>given_with_params\<close> as it is, returning or
  raising as the engine does, and the provider states of the engine are then those that
  \<^verbatim>\<open>given(state, name="value", value=s)\<close> leaves.
\<close>

theorem given_non_json_string:
  "read_json s = None \<Longrightarrow>
     given eng dumps h st None None (Some (Str s)) log =
       (fst (call eng (Ffi_given_with_params h st s) log), log @ [Ffi_given_with_params h st s])
   \<and> provider_states_of read_json h (snd (given eng dumps h st None None (Some (Str s)) log)) =
       provider_states_of read_json h (snd (given eng dumps h st (Some ''value'') (Some s) None log))"
  by (simp add: given_def call_def provider_states_of_def engine_given_def)

theorem given_non_json_string_witness:
  "example_read_json ''not json'' = None
   \<and> given always_ok example_dumps 0 ''a user exists'' None None (Some (Str ''not json''))
        [Ffi_given_with_param 0 ''a user exists'' ''id'' ''1''] =
       (Inr (), [Ffi_given_with_param 0 ''a user exists'' ''id'' ''1'',
                 Ffi_given_with_params 0 ''a user exists'' ''not json''])
   \<and> provider_states_of example_read_json 0
        (snd (given always_ok example_dumps 0 ''a user exists'' None None (Some (Str ''not json''))
               [Ffi_given_with_param 0 ''a user exists'' ''id'' ''1''])) =
       [(''a user exists'', [(''id'', ''1''), (''value'', ''not json'')])]
   \<and> provider_states_of example_read_json 0
        (snd (given always_ok example_dumps 0 ''a user exists'' (Some ''value'') (Some ''not json'') None
               [Ffi_given_with_param 0 ''a user exists'' ''id'' ''1''])) =
       [(''a user exists'', [(''id'', ''1''), (''value'', ''not json'')])]"
proof -
  have h: "example_read_json ''not json'' = None"
    by (simp add: example_read_json_def)
  have v: "provider_states_of example_read_json 0
        (snd (given always_ok example_dumps 0 ''a user exists'' (Some ''value'') (Some ''not json'') None
               [Ffi_given_with_param 0 ''a user exists'' ''id'' ''1''])) =
       [(''a user exists'', [(''id'', ''1''), (''value'', ''not json'')])]"
    by (simp add: given_def call_def provider_states_of_def engine_given_def merge_params_def)
  note c = given_non_json_string [where read_json = example_read_json and s = "''not json''"
        and eng = always_ok and dumps = example_dumps and h = 0 and st = "''a user exists''"
        and log = "[Ffi_given_with_param 0 ''a user exists'' ''id'' ''1'']", OF h]
  have r: "given always_ok example_dumps 0 ''a user exists'' None None (Some (Str ''not json''))
        [Ffi_given_with_param 0 ''a user exists'' ''id'' ''1''] =
       (Inr (), [Ffi_given_with_param 0 ''a user exists'' ''id'' ''1'',
                 Ffi_given_with_params 0 ''a user exists'' ''not json''])"
    using c [THEN conjunct1] by (simp add: call_def always_ok_def)
  have s: "provider_states_of example_read_json 0
        (snd (given always_ok example_dumps 0 ''a user exists'' None None (Some (Str ''not json''))
               [Ffi_given_with_param 0 ''a user exists'' ''id'' ''1''])) =
       [(''a user exists'', [(''id'', ''1''), (''value'', ''not json'')])]"
    by (rule trans [OF c [THEN conjunct2] v])
  show ?thesis
    by (intro conjI) (rule h r s v)+
qed

end
